theory Spec2Isabelle
  imports Main "HOL-Library.AList" "HOL-Library.Sublist"
begin

section \<open>The packaging pipeline of \<^verbatim>\<open>cdk_chalice/chalice.py\<close>\<close>

text \<open>
  A shallow embedding of \<^verbatim>\<open>DockerConfig.__init__\<close> and of the methods of
  \<^verbatim>\<open>Chalice\<close>: \<^verbatim>\<open>_create_stage_with_config\<close>, \<^verbatim>\<open>_package_app\<close>,
  \<^verbatim>\<open>_package_app_container\<close>, \<^verbatim>\<open>_package_app_subprocess\<close> and
  \<^verbatim>\<open>_update_sam_template\<close>. The leading underscore of a method name is dropped,
  since an Isabelle name starts with a letter.

  Every method works on its surroundings: files, the process environment, a child
  process, the Docker daemon, the CDK construct tree. The files and what the methods do
  to their surroundings are a \<open>world\<close> value that each operation takes and returns;
  what the surroundings answer (the standard library, docker-py, the CDK) is a \<open>host\<close>
  value, a parameter of every operation. A Python exception is a value of \<open>exn\<close>, and
  an operation returns \<open>Inl\<close> of it where the Python raises.
\<close>

subsection \<open>JSON documents and Python values\<close>

text \<open>
  What \<^verbatim>\<open>json.load\<close> returns: \<^verbatim>\<open>None\<close>, a bool, an int, a str, a list, or a
  dict with str keys. A dict keeps its keys in insertion order, so it is an association
  list; \<^verbatim>\<open>d[k]\<close> reads it with \<open>map_of\<close> and \<^verbatim>\<open>d[k] = v\<close> is \<open>AList.update\<close>,
  which replaces the value of a key in place and appends a new key at the end, as a
  Python dict does. Floats are left out.
\<close>

datatype json =
    JNull
  | JBool bool
  | JInt int
  | JStr string
  | JArr "json list"
  | JObj "(string \<times> json) list"

datatype exn =
    FileNotFoundError string
  | JSONDecodeError
  | KeyError string
  | TypeError
  | AttributeError
  | OSError string
  | AssetNotFound string
  | NotFound string
  | ImageNotFound string
  | ContainerError int
  | APIError string
  | DockerException string
  | ChaliceError string

type_synonym 'a result = "exn + 'a"

text \<open>
  \<^verbatim>\<open>v[k]\<close> for a str \<open>k\<close>: a dict without the key raises KeyError; a list, a str, a
  number, a bool and \<^verbatim>\<open>None\<close> raise TypeError.
\<close>

fun getitem :: "json \<Rightarrow> string \<Rightarrow> json result" where
  "getitem (JObj kvs) k = (case map_of kvs k of None \<Rightarrow> Inl (KeyError k) | Some v \<Rightarrow> Inr v)"
| "getitem _ k = Inl TypeError"

text \<open>\<^verbatim>\<open>v[k] = x\<close> for a str \<open>k\<close>: only a dict takes it, everything else raises TypeError.\<close>

fun setitem :: "json \<Rightarrow> string \<Rightarrow> json \<Rightarrow> json result" where
  "setitem (JObj kvs) k x = Inr (JObj (AList.update k x kvs))"
| "setitem _ k x = Inl TypeError"

text \<open>\<^verbatim>\<open>v.items()\<close>: only a dict has the method, everything else raises AttributeError.\<close>

fun items :: "json \<Rightarrow> (string \<times> json) list result" where
  "items (JObj kvs) = Inr kvs"
| "items _ = Inl AttributeError"

text \<open>
  The code changes a dict that it reached through another one
  (\<^verbatim>\<open>config['stages'][name] = ...\<close>, \<^verbatim>\<open>function['Properties']['CodeUri'] = ...\<close>).
  The outer dict holds a reference to the inner one, so it shows the change; with values
  in place of references the changed inner dict is written back under its key.
  \<^verbatim>\<open>json.load\<close> builds a fresh object for every node, so no other place of the document
  refers to the inner dict.
\<close>

fun seen_through :: "json \<Rightarrow> string \<Rightarrow> json \<Rightarrow> json" where
  "seen_through (JObj kvs) k inner = JObj (AList.update k inner kvs)"
| "seen_through outer k inner = outer"

subsection \<open>Paths and files\<close>

text \<open>\<^verbatim>\<open>os.path.join(a, b)\<close> of \<^verbatim>\<open>posixpath\<close>, for two parts.\<close>

definition path_join :: "string \<Rightarrow> string \<Rightarrow> string" where
  "path_join a b =
     (if b \<noteq> [] \<and> hd b = CHR ''/'' then b
      else if a = [] \<or> last a = CHR ''/'' then a @ b
      else a @ ''/'' @ b)"

text \<open>
  An open file: its text and the position of the next read or write. \<^verbatim>\<open>read()\<close>
  returns the text from the position on and moves to the end; \<^verbatim>\<open>write(s)\<close> overwrites
  from the position on and extends the file where \<open>s\<close> is longer; \<^verbatim>\<open>truncate()\<close> cuts
  the file at the position.
\<close>

record file_obj =
  content :: string
  pos :: nat

definition f_read :: "file_obj \<Rightarrow> string \<times> file_obj" where
  "f_read f = (drop (pos f) (content f), f\<lparr>pos := max (pos f) (length (content f))\<rparr>)"

definition f_seek :: "nat \<Rightarrow> file_obj \<Rightarrow> file_obj" where
  "f_seek n f = f\<lparr>pos := n\<rparr>"

definition f_write :: "string \<Rightarrow> file_obj \<Rightarrow> file_obj" where
  "f_write s f =
     f\<lparr>content := take (pos f) (content f) @ replicate (pos f - length (content f)) (CHR 0x00)
                    @ s @ drop (pos f + length s) (content f),
       pos := pos f + length s\<rparr>"

definition f_truncate :: "file_obj \<Rightarrow> file_obj" where
  "f_truncate f =
     f\<lparr>content := take (pos f) (content f) @ replicate (pos f - length (content f)) (CHR 0x00)\<rparr>"

subsection \<open>The surroundings\<close>

text \<open>A published asset, as \<^verbatim>\<open>aws_s3_assets.Asset\<close> shows it to the code.\<close>

record asset =
  s3_bucket_name :: string
  s3_object_key :: string

text \<open>The arguments of \<^verbatim>\<open>client.containers.run\<close>.\<close>

record container_request =
  req_image :: string
  req_command :: string
  req_environment :: "(string \<times> string) list"
  req_remove :: bool
  req_volumes :: "(string \<times> (string \<times> string)) list"
  req_working_dir :: string

text \<open>What the code asks of its surroundings, in the order it asks.\<close>

datatype event =
    Stdout string
  | Opened string
  | NewAsset string string
  | Which string
  | SubprocessRun "string option list" string "(string \<times> string) list"
  | DockerFromEnv
  | ContainersRun container_request

record world =
  files :: "string \<rightharpoonup> string"
  assets :: "asset list"
  events :: "event list"

text \<open>
  The answers of the surroundings. \<open>json_loads\<close> is \<^verbatim>\<open>json.load\<close> on the text of a
  file (\<open>None\<close> where it raises JSONDecodeError) and \<open>json_dumps\<close> is
  \<^verbatim>\<open>json.dumps(_, indent=2)\<close>. \<open>popen\<close> is the child process of
  \<^verbatim>\<open>subprocess.run\<close>: it fails to start (\<open>Inl\<close>) or ends with an exit status, and it
  may change the files. \<open>containers_run\<close> is the Docker daemon behind
  \<^verbatim>\<open>client.containers.run\<close>: the exception docker-py raises, if any, and the files
  afterwards. \<open>asset_of\<close> gives the bucket and key of the asset the CDK makes of a file.
\<close>

record host =
  json_loads :: "string \<Rightarrow> json option"
  json_dumps :: "json \<Rightarrow> string"
  getcwd :: string
  uuid4_hex :: string
  environ :: "(string \<times> string) list"
  shutil_which :: "string \<Rightarrow> string option"
  popen :: "string list \<Rightarrow> string \<Rightarrow> (string \<times> string) list
              \<Rightarrow> (string \<rightharpoonup> string) \<Rightarrow> int result \<times> (string \<rightharpoonup> string)"
  docker_from_env :: "exn option"
  containers_run :: "container_request \<Rightarrow> (string \<rightharpoonup> string)
              \<Rightarrow> exn option \<times> (string \<rightharpoonup> string)"
  version_info :: "nat \<times> nat"
  asset_of :: "string \<Rightarrow> string \<Rightarrow> asset"

definition emit :: "event \<Rightarrow> world \<Rightarrow> world" where
  "emit e w = w\<lparr>events := events w @ [e]\<rparr>"

subsection \<open>The config merger: \<^verbatim>\<open>Chalice._create_stage_with_config\<close>\<close>

text \<open>
  The file is opened in mode \<^verbatim>\<open>r+\<close>, which needs an existing file. An exception
  inside the \<^verbatim>\<open>with\<close> block is raised before the first write, so the file is closed
  as it was.
\<close>

definition create_stage_with_config ::
  "host \<Rightarrow> string \<Rightarrow> string \<Rightarrow> json \<Rightarrow> world \<Rightarrow> unit result \<times> world" where
  "create_stage_with_config h source_dir stage_name stage_config w =
     (let config_path = path_join source_dir ''.chalice/config.json'';
          w = emit (Opened config_path) w
      in case files w config_path of
           None \<Rightarrow> (Inl (FileNotFoundError config_path), w)
         | Some text \<Rightarrow>
             let (data, config_file) = f_read \<lparr>content = text, pos = 0\<rparr>
             in (case json_loads h data of
                  None \<Rightarrow> (Inl JSONDecodeError, w)
                | Some config \<Rightarrow>
                   (case getitem config ''stages'' of
                      Inl e \<Rightarrow> (Inl e, w)
                    | Inr stages \<Rightarrow>
                       (case setitem stages stage_name stage_config of
                          Inl e \<Rightarrow> (Inl e, w)
                        | Inr stages' \<Rightarrow>
                           let config = seen_through config ''stages'' stages';
                               config_file = f_seek 0 config_file;
                               config_file = f_write (json_dumps h config) config_file;
                               config_file = f_truncate config_file
                           in (Inr (), w\<lparr>files := (files w)(config_path \<mapsto> content config_file)\<rparr>)))))"

subsection \<open>The execution-environment configuration: \<^verbatim>\<open>DockerConfig.__init__\<close>\<close>

text \<open>\<^verbatim>\<open>d.setdefault(k, v)\<close>: a key that is present keeps its value.\<close>

definition setdefault :: "'k \<Rightarrow> 'v \<Rightarrow> ('k \<times> 'v) list \<Rightarrow> ('k \<times> 'v) list" where
  "setdefault k v d = (case map_of d k of None \<Rightarrow> AList.update k v d | Some _ \<Rightarrow> d)"

text \<open>The decimal digits of a number, as an f-string prints an int that is not negative.\<close>

definition digit_char :: "nat \<Rightarrow> char" where
  "digit_char d = ''0123456789'' ! d"

fun str_nat :: "nat \<Rightarrow> string" where
  "str_nat n =
     (if n < 10 then [digit_char n]
      else str_nat (n div 10) @ [digit_char (n mod 10)])"

declare str_nat.simps [simp del]

record docker_config =
  dc_image :: string
  dc_env :: "(string \<times> string) list"
  dc_init_commands :: "string list"

text \<open>
  The three arguments may be \<^verbatim>\<open>None\<close> (\<open>image_arg\<close> is the argument
  \<^verbatim>\<open>image\<close>). \<^verbatim>\<open>not image\<close>, \<^verbatim>\<open>env or {}\<close> and
  \<^verbatim>\<open>not init_commands\<close> treat \<^verbatim>\<open>None\<close> and an empty value alike.
\<close>

definition DockerConfig_init ::
  "host \<Rightarrow> string option \<Rightarrow> (string \<times> string) list option \<Rightarrow> string list option
     \<Rightarrow> docker_config" where
  "DockerConfig_init h image_arg env init_commands =
     (let self_image =
            (if image_arg = None \<or> image_arg = Some [] then
               let python_version =
                     str_nat (fst (version_info h)) @ ''.'' @ str_nat (snd (version_info h))
               in ''lambci/lambda:build-python'' @ python_version
             else the image_arg);
          self_env = (if env = None \<or> env = Some [] then [] else the env);
          self_env = setdefault ''AWS_DEFAULT_REGION'' ''us-east-1'' self_env;
          init_commands =
            (if init_commands = None \<or> init_commands = Some [] then [] else the init_commands)
      in \<lparr>dc_image = self_image, dc_env = self_env, dc_init_commands = init_commands\<rparr>)"

subsection \<open>The local process runner: \<^verbatim>\<open>Chalice._package_app_subprocess\<close>\<close>

text \<open>
  \<^verbatim>\<open>subprocess.run(args, cwd=..., env=...)\<close> without \<^verbatim>\<open>check=True\<close>: an argument that
  is \<^verbatim>\<open>None\<close> raises TypeError, a process that does not start raises its error, and
  a process that ran gives its exit status back, whatever it is.
\<close>

definition subprocess_run ::
  "host \<Rightarrow> string option list \<Rightarrow> string \<Rightarrow> (string \<times> string) list \<Rightarrow> world
     \<Rightarrow> int result \<times> world" where
  "subprocess_run h args cwd env w =
     (let w = emit (SubprocessRun args cwd env) w
      in case those args of
           None \<Rightarrow> (Inl TypeError, w)
         | Some argv \<Rightarrow>
             (case popen h argv cwd env (files w) of
                (Inl e, fs) \<Rightarrow> (Inl e, w\<lparr>files := fs\<rparr>)
              | (Inr returncode, fs) \<Rightarrow> (Inr returncode, w\<lparr>files := fs\<rparr>)))"

text \<open>
  The environment of the child: a copy of \<^verbatim>\<open>os.environ\<close>, made entry by entry, then
  the default of the region.
\<close>

definition subprocess_env :: "(string \<times> string) list \<Rightarrow> (string \<times> string) list" where
  "subprocess_env os_environ =
     (let env = fold (\<lambda>(k, v) env. AList.update k v env) os_environ []
      in setdefault ''AWS_DEFAULT_REGION'' ''us-east-1'' env)"

text \<open>The argument list; \<^verbatim>\<open>shutil.which\<close> gives \<^verbatim>\<open>None\<close> where it finds nothing.\<close>

definition subprocess_command :: "host \<Rightarrow> string \<Rightarrow> string \<Rightarrow> string option list" where
  "subprocess_command h stage_name sam_package_dir =
     (let chalice_exe = shutil_which h ''chalice''
      in [chalice_exe, Some ''package'', Some ''--stage'', Some stage_name, Some sam_package_dir])"

definition package_app_subprocess ::
  "host \<Rightarrow> string \<Rightarrow> string \<Rightarrow> string \<Rightarrow> world \<Rightarrow> unit result \<times> world" where
  "package_app_subprocess h source_dir stage_name sam_package_dir w =
     (let w = emit (Which ''chalice'') w;
          command = subprocess_command h stage_name sam_package_dir;
          env = subprocess_env (environ h);
          w = emit (Stdout (''Packaging Chalice app for '' @ stage_name)) w
      in case subprocess_run h command source_dir env w of
           (Inl e, w) \<Rightarrow> (Inl e, w)
         | (Inr completed, w) \<Rightarrow> (Inr (), w))"

subsection \<open>The containerized runner: \<^verbatim>\<open>Chalice._package_app_container\<close>\<close>

text \<open>The shell command, of three adjacent string literals.\<close>

definition docker_command :: "docker_config \<Rightarrow> string \<Rightarrow> string" where
  "docker_command dc stage_name =
     (''bash -c \"'' @ concat (map (\<lambda>command. command @ ''; '') (dc_init_commands dc)))
       @ ''pip install --no-cache-dir -r requirements.txt; ''
       @ (''chalice package --stage '' @ stage_name @ '' /chalice.out\"'')"

text \<open>
  \<^verbatim>\<open>except docker.errors.NotFound\<close> catches the class and its subclass
  \<^verbatim>\<open>ImageNotFound\<close>.
\<close>

fun isinstance_NotFound :: "exn \<Rightarrow> bool" where
  "isinstance_NotFound (NotFound _) = True"
| "isinstance_NotFound (ImageNotFound _) = True"
| "isinstance_NotFound _ = False"

definition unsupported_message :: "string \<Rightarrow> string" where
  "unsupported_message img =
     ''Unsupported Python version in docker image: '' @ img @ ''. See AWS Lambda ''
       @ ''Runtimes documentation for supported versions: ''
       @ ''https://docs.aws.amazon.com/lambda/latest/dg/lambda-runtimes.html''"

text \<open>
  The arguments of the call \<^verbatim>\<open>client.containers.run(...)\<close>. The dict display of the
  volumes has two keys; where they are equal the second entry replaces the first.
\<close>

definition run_request :: "string \<Rightarrow> string \<Rightarrow> docker_config \<Rightarrow> string \<Rightarrow> container_request" where
  "run_request source_dir stage_name dc sam_package_dir =
     (let docker_volumes =
            AList.update sam_package_dir (''/chalice.out'', ''rw'') [(source_dir, (''/app'', ''rw''))]
      in \<lparr>req_image = dc_image dc,
          req_command = docker_command dc stage_name,
          req_environment = dc_env dc,
          req_remove = True,
          req_volumes = docker_volumes,
          req_working_dir = ''/app''\<rparr>)"

text \<open>\<^verbatim>\<open>docker.from_env()\<close> stands outside the \<^verbatim>\<open>try\<close>.\<close>

definition package_app_container ::
  "host \<Rightarrow> string \<Rightarrow> string \<Rightarrow> docker_config \<Rightarrow> string \<Rightarrow> world \<Rightarrow> unit result \<times> world" where
  "package_app_container h source_dir stage_name dc sam_package_dir w =
     (let req = run_request source_dir stage_name dc sam_package_dir;
          w = emit DockerFromEnv w
      in case docker_from_env h of
           Some e \<Rightarrow> (Inl e, w)
         | None \<Rightarrow>
            (let w = emit (Stdout (''Packaging Chalice app for '' @ stage_name)) w;
                 w = emit (ContainersRun req) w
             in case containers_run h req (files w) of
                  (None, fs) \<Rightarrow> (Inr (), w\<lparr>files := fs\<rparr>)
                | (Some e, fs) \<Rightarrow>
                    if isinstance_NotFound e
                    then (Inl (ChaliceError (unsupported_message (dc_image dc))), w\<lparr>files := fs\<rparr>)
                    else (Inl e, w\<lparr>files := fs\<rparr>)))"

subsection \<open>The selection of the runner: \<^verbatim>\<open>Chalice._package_app\<close>\<close>

definition package_app ::
  "host \<Rightarrow> string \<Rightarrow> string \<Rightarrow> docker_config option \<Rightarrow> world \<Rightarrow> string result \<times> world" where
  "package_app h source_dir stage_name docker_config w =
     (let chalice_out_dir = path_join (getcwd h) ''chalice.out'';
          sam_package_dir = path_join chalice_out_dir (uuid4_hex h);
          (r, w) =
            (if docker_config \<noteq> None
             then package_app_container h source_dir stage_name (the docker_config)
                    sam_package_dir w
             else package_app_subprocess h source_dir stage_name sam_package_dir w)
      in case r of Inl e \<Rightarrow> (Inl e, w) | Inr u \<Rightarrow> (Inr sam_package_dir, w))"

subsection \<open>The manifest rewriter: \<^verbatim>\<open>Chalice._update_sam_template\<close>\<close>

text \<open>
  Modelled from the spec: \<^verbatim>\<open>assets.Asset(self, id, path=...)\<close>, the asset-publishing
  collaborator. It belongs to the CDK, not to this repository. It fails with a lookup
  error where the path names no file, and otherwise adds the asset of the file to the
  construct tree; the bucket and key of the asset are the host's.
\<close>

definition Asset :: "host \<Rightarrow> string \<Rightarrow> string \<Rightarrow> world \<Rightarrow> asset result \<times> world" where
  "Asset h ident path w =
     (let w = emit (NewAsset ident path) w
      in case files w path of
           None \<Rightarrow> (Inl (AssetNotFound path), w)
         | Some blob \<Rightarrow>
             (let a = asset_of h path blob in (Inr a, w\<lparr>assets := assets w @ [a]\<rparr>)))"

text \<open>The test of the comprehension: \<^verbatim>\<open>v['Type'] == 'AWS::Serverless::Function'\<close>.\<close>

definition is_function :: "json \<Rightarrow> bool result" where
  "is_function v =
     (case getitem v ''Type'' of
        Inl e \<Rightarrow> Inl e
      | Inr t \<Rightarrow> Inr (t = JStr ''AWS::Serverless::Function''))"

text \<open>
  The comprehension \<^verbatim>\<open>[v for k, v in ....items() if ...]\<close> runs the test on every
  resource in order, before the loop starts, and collects references to the resources
  that pass. A resource is an object of its own, so the list of references is the list
  of marks, one per resource in order, that say which resources it holds.
\<close>

fun select_functions :: "(string \<times> json) list \<Rightarrow> bool list result" where
  "select_functions [] = Inr []"
| "select_functions ((k, v) # kvs) =
     (case is_function v of
        Inl e \<Rightarrow> Inl e
      | Inr b \<Rightarrow>
         (case select_functions kvs of
            Inl e \<Rightarrow> Inl e
          | Inr bs \<Rightarrow> Inr (b # bs)))"

text \<open>The body of the loop, for one function resource.\<close>

definition patch_function :: "json \<Rightarrow> json \<Rightarrow> json result" where
  "patch_function code_uri function =
     (case getitem function ''Properties'' of
        Inl e \<Rightarrow> Inl e
      | Inr properties \<Rightarrow>
         (case setitem properties ''CodeUri'' code_uri of
            Inl e \<Rightarrow> Inl e
          | Inr properties' \<Rightarrow> Inr (seen_through function ''Properties'' properties')))"

text \<open>The loop over the marked resources, in order; the first exception ends it.\<close>

fun for_functions ::
  "json \<Rightarrow> bool list \<Rightarrow> (string \<times> json) list \<Rightarrow> (string \<times> json) list result" where
  "for_functions code_uri (b # bs) ((k, v) # kvs) =
     (if b then
        (case patch_function code_uri v of
           Inl e \<Rightarrow> Inl e
         | Inr v' \<Rightarrow>
            (case for_functions code_uri bs kvs of
               Inl e \<Rightarrow> Inl e
             | Inr kvs' \<Rightarrow> Inr ((k, v') # kvs')))
      else
        (case for_functions code_uri bs kvs of
           Inl e \<Rightarrow> Inl e
         | Inr kvs' \<Rightarrow> Inr ((k, v) # kvs')))"
| "for_functions code_uri bs kvs = Inr kvs"

definition code_uri_of :: "asset \<Rightarrow> json" where
  "code_uri_of a =
     JObj [(''Bucket'', JStr (s3_bucket_name a)), (''Key'', JStr (s3_object_key a))]"

definition update_sam_template :: "host \<Rightarrow> string \<Rightarrow> world \<Rightarrow> json result \<times> world" where
  "update_sam_template h sam_package_dir w =
     (let deployment_zip_path = path_join sam_package_dir ''deployment.zip''
      in case Asset h ''ChaliceAppCode'' deployment_zip_path w of
           (Inl e, w) \<Rightarrow> (Inl e, w)
         | (Inr sam_deployment_asset, w) \<Rightarrow>
            (let sam_template_path = path_join sam_package_dir ''sam.json'';
                 w = emit (Opened sam_template_path) w
             in case files w sam_template_path of
                  None \<Rightarrow> (Inl (FileNotFoundError sam_template_path), w)
                | Some text \<Rightarrow>
                   (case json_loads h text of
                      None \<Rightarrow> (Inl JSONDecodeError, w)
                    | Some sam_template \<Rightarrow>
                       (case getitem sam_template ''Resources'' of
                          Inl e \<Rightarrow> (Inl e, w)
                        | Inr resources \<Rightarrow>
                           (case items resources of
                              Inl e \<Rightarrow> (Inl e, w)
                            | Inr kvs \<Rightarrow>
                               (case select_functions kvs of
                                  Inl e \<Rightarrow> (Inl e, w)
                                | Inr functions \<Rightarrow>
                                   (case for_functions (code_uri_of sam_deployment_asset)
                                           functions kvs of
                                      Inl e \<Rightarrow> (Inl e, w)
                                    | Inr kvs' \<Rightarrow>
                                       (Inr (seen_through sam_template ''Resources'' (JObj kvs')),
                                        w))))))))"

section \<open>Notions of the properties\<close>

text \<open>
  \<^verbatim>\<open>json.load\<close> reads back a document that \<^verbatim>\<open>json.dumps\<close> wrote. This is a fact
  of the \<^verbatim>\<open>json\<close> module, so a property that parses a written file asks for it.
\<close>

definition reads_back :: "host \<Rightarrow> json \<Rightarrow> bool" where
  "reads_back h v = (json_loads h (json_dumps h v) = Some v)"

text \<open>The value at the end of a path of keys, where the document has one.\<close>

fun lookup_path :: "json \<Rightarrow> string list \<Rightarrow> json option" where
  "lookup_path v [] = Some v"
| "lookup_path (JObj kvs) (k # ks) =
     (case map_of kvs k of None \<Rightarrow> None | Some x \<Rightarrow> lookup_path x ks)"
| "lookup_path v (k # ks) = None"

text \<open>
  A resource the rewrite can handle: a dict with a \<^verbatim>\<open>Type\<close>, and for a function
  resource a \<^verbatim>\<open>Properties\<close> dict as well.
\<close>

fun well_formed_resource :: "json \<Rightarrow> bool" where
  "well_formed_resource (JObj entries) =
     (case map_of entries ''Type'' of
        None \<Rightarrow> False
      | Some t \<Rightarrow>
          if t = JStr ''AWS::Serverless::Function''
          then (case map_of entries ''Properties'' of Some (JObj ps) \<Rightarrow> True | _ \<Rightarrow> False)
          else True)"
| "well_formed_resource v = False"

text \<open>
  Two dicts that agree off one key: the other keys are the same, in the same order, with
  the same values.
\<close>

definition same_except :: "string \<Rightarrow> (string \<times> json) list \<Rightarrow> (string \<times> json) list \<Rightarrow> bool" where
  "same_except k d d' =
     (filter (\<lambda>j. j \<noteq> k) (map fst d') = filter (\<lambda>j. j \<noteq> k) (map fst d)
      \<and> (\<forall>j. j \<noteq> k \<longrightarrow> map_of d' j = map_of d j))"

text \<open>The events of one call: those the world gained.\<close>

definition new_events :: "world \<Rightarrow> world \<Rightarrow> event list" where
  "new_events w w' = drop (length (events w)) (events w')"

text \<open>The runner an event belongs to, and the runners a call has used.\<close>

datatype runner = Containerized | LocalProcess

fun runner_of :: "event \<Rightarrow> runner option" where
  "runner_of DockerFromEnv = Some Containerized"
| "runner_of (ContainersRun req) = Some Containerized"
| "runner_of (Which name) = Some LocalProcess"
| "runner_of (SubprocessRun args cwd env) = Some LocalProcess"
| "runner_of e = None"

definition runners_used :: "world \<Rightarrow> world \<Rightarrow> runner set" where
  "runners_used w w' = set (List.map_filter runner_of (new_events w w'))"

text \<open>
  \<open>in_order ps s\<close>: the strings \<open>ps\<close> occur in \<open>s\<close> one after the other, without
  overlap. \<open>after_first p s\<close> is what follows the first occurrence of \<open>p\<close> in \<open>s\<close>.
\<close>

fun after_first :: "string \<Rightarrow> string \<Rightarrow> string option" where
  "after_first p [] = (if p = [] then Some [] else None)"
| "after_first p (c # s) =
     (if prefix p (c # s) then Some (drop (length p) (c # s)) else after_first p s)"

fun in_order :: "string list \<Rightarrow> string \<Rightarrow> bool" where
  "in_order [] s = True"
| "in_order (p # ps) s = (case after_first p s of None \<Rightarrow> False | Some r \<Rightarrow> in_order ps r)"

subsection \<open>A host and a world to run the operations on\<close>

definition example_sam :: json where
  "example_sam =
     JObj [(''Resources'',
        JObj [(''APIHandler'',
                 JObj [(''Type'', JStr ''AWS::Serverless::Function''),
                       (''Properties'', JObj [(''Runtime'', JStr ''python3.8''),
                                              (''CodeUri'', JStr ''./deployment.zip'')])]),
              (''RestAPI'',
                 JObj [(''Type'', JStr ''AWS::Serverless::Api''),
                       (''Properties'', JObj [(''StageName'', JStr ''api'')])])])]"

definition example_config :: "(string \<times> json) list" where
  "example_config = [(''version'', JStr ''2.0''), (''stages'', JObj [(''dev'', JObj [])])]"

definition example_stage_config :: json where
  "example_stage_config = JObj [(''api_gateway_stage'', JStr ''v1'')]"

definition example_merged :: json where
  "example_merged =
     JObj [(''version'', JStr ''2.0''),
           (''stages'', JObj [(''dev'', JObj []), (''prod'', example_stage_config)])]"

definition example_host :: host where
  "example_host =
     \<lparr>json_loads = (\<lambda>s. if s = ''CONFIG'' then Some (JObj example_config)
                         else if s = ''MERGED'' then Some example_merged
                         else if s = ''SAM'' then Some example_sam
                         else None),
      json_dumps = (\<lambda>v. if v = example_merged then ''MERGED'' else ''null''),
      getcwd = ''/work'',
      uuid4_hex = ''0f3a'',
      environ = [(''PATH'', ''/usr/bin'')],
      shutil_which = (\<lambda>name. Some (''/usr/bin/'' @ name)),
      popen = (\<lambda>argv cwd env fs. (Inr 1, fs)),
      docker_from_env = None,
      containers_run = (\<lambda>req fs. (Some (ImageNotFound (req_image req)), fs)),
      version_info = (3, 8),
      asset_of = (\<lambda>path blob. \<lparr>s3_bucket_name = ''bucket'', s3_object_key = ''key''\<rparr>)\<rparr>"

definition example_world :: world where
  "example_world =
     \<lparr>files = [''/app/.chalice/config.json'' \<mapsto> ''CONFIG'',
               ''/out/sam.json'' \<mapsto> ''SAM'',
               ''/out/deployment.zip'' \<mapsto> ''PK''],
      assets = [],
      events = []\<rparr>"

section \<open>Properties\<close>

subsection \<open>The config merger\<close>

lemma create_stage_with_config_run:
  assumes "files w (path_join source_dir ''.chalice/config.json'') = Some t"
      and "json_loads h t = Some (JObj doc)"
      and "map_of doc ''stages'' = Some (JObj stages)"
  shows "create_stage_with_config h source_dir S C w =
           (Inr (), (emit (Opened (path_join source_dir ''.chalice/config.json'')) w)
              \<lparr>files := (files w)(path_join source_dir ''.chalice/config.json'' \<mapsto>
                 json_dumps h (JObj (AList.update ''stages'' (JObj (AList.update S C stages)) doc)))\<rparr>)"
  using assms
  by (simp add: create_stage_with_config_def Let_def emit_def f_truncate_def f_write_def
      f_seek_def f_read_def)

text \<open>
  C1. Where the config file exists, parses to a dict and has a dict under \<^verbatim>\<open>stages\<close>,
  the merge of stage \<open>S\<close> with configuration \<open>C\<close> succeeds, and the file then holds
  the text of a document, and nothing else, that \<^verbatim>\<open>json.load\<close> reads back: a document
  with the same top-level keys in the same order, the same value under every key but
  \<^verbatim>\<open>stages\<close>, the same configuration for every stage but \<open>S\<close>, and \<open>C\<close> for \<open>S\<close>.
\<close>

theorem create_stage_with_config_merges:
  assumes "files w (path_join source_dir ''.chalice/config.json'') = Some t"
      and "json_loads h t = Some (JObj doc)"
      and "map_of doc ''stages'' = Some (JObj stages)"
      and "reads_back h (JObj (AList.update ''stages'' (JObj (AList.update S C stages)) doc))"
  shows "\<exists>w' t' doc' stages'.
           create_stage_with_config h source_dir S C w = (Inr (), w')
         \<and> files w' (path_join source_dir ''.chalice/config.json'') = Some t'
         \<and> t' = json_dumps h (JObj doc')
         \<and> json_loads h t' = Some (JObj doc')
         \<and> map fst doc' = map fst doc
         \<and> (\<forall>k. k \<noteq> ''stages'' \<longrightarrow> map_of doc' k = map_of doc k)
         \<and> map_of doc' ''stages'' = Some (JObj stages')
         \<and> (\<forall>s. s \<noteq> S \<longrightarrow> map_of stages' s = map_of stages s)
         \<and> map_of stages' S = Some C"
proof -
  let ?stages' = "AList.update S C stages"
  let ?doc' = "AList.update ''stages'' (JObj ?stages') doc"
  let ?path = "path_join source_dir ''.chalice/config.json''"
  have key: "''stages'' \<in> fst ` set doc"
    using assms(3) by (metis domI dom_map_of_conv_image_fst)
  have "map fst ?doc' = map fst doc"
    using key by (simp add: update_keys)
  moreover have "\<forall>k. k \<noteq> ''stages'' \<longrightarrow> map_of ?doc' k = map_of doc k"
    by (simp add: update_conv')
  moreover have "map_of ?doc' ''stages'' = Some (JObj ?stages')"
    by (simp add: update_conv')
  moreover have "\<forall>s. s \<noteq> S \<longrightarrow> map_of ?stages' s = map_of stages s"
    by (simp add: update_conv')
  moreover have "map_of ?stages' S = Some C"
    by (simp add: update_conv')
  moreover have "json_loads h (json_dumps h (JObj ?doc')) = Some (JObj ?doc')"
    using assms(4) by (simp add: reads_back_def)
  ultimately show ?thesis
    using create_stage_with_config_run [OF assms(1-3), of S C]
    by (intro exI [of _ "(emit (Opened ?path) w)\<lparr>files := (files w)(?path \<mapsto>
                 json_dumps h (JObj ?doc'))\<rparr>"] exI [of _ "json_dumps h (JObj ?doc')"]
              exI [of _ ?doc'] exI [of _ ?stages']) simp
qed

theorem create_stage_with_config_merges_witness:
  "files example_world (path_join ''/app'' ''.chalice/config.json'') = Some ''CONFIG''
   \<and> json_loads example_host ''CONFIG'' = Some (JObj example_config)
   \<and> map_of example_config ''stages'' = Some (JObj [(''dev'', JObj [])])
   \<and> reads_back example_host example_merged
   \<and> (\<exists>w' t' doc' stages'.
           create_stage_with_config example_host ''/app'' ''prod'' example_stage_config example_world
             = (Inr (), w')
         \<and> files w' (path_join ''/app'' ''.chalice/config.json'') = Some t'
         \<and> t' = json_dumps example_host (JObj doc')
         \<and> json_loads example_host t' = Some (JObj doc')
         \<and> map fst doc' = map fst example_config
         \<and> (\<forall>k. k \<noteq> ''stages'' \<longrightarrow> map_of doc' k = map_of example_config k)
         \<and> map_of doc' ''stages'' = Some (JObj stages')
         \<and> (\<forall>s. s \<noteq> ''prod'' \<longrightarrow> map_of stages' s = map_of [(''dev'', JObj [])] s)
         \<and> map_of stages' ''prod'' = Some example_stage_config)"
proof -
  have f: "files example_world (path_join ''/app'' ''.chalice/config.json'') = Some ''CONFIG''"
    by (simp add: example_world_def path_join_def)
  have p: "json_loads example_host ''CONFIG'' = Some (JObj example_config)"
    by (simp add: example_host_def)
  have s: "map_of example_config ''stages'' = Some (JObj [(''dev'', JObj [])])"
    by (simp add: example_config_def)
  have m: "JObj (AList.update ''stages''
             (JObj (AList.update ''prod'' example_stage_config [(''dev'', JObj [])])) example_config)
           = example_merged"
    by (simp add: example_config_def example_merged_def)
  have r: "reads_back example_host example_merged"
    by (simp add: reads_back_def example_host_def)
  from r m have r': "reads_back example_host (JObj (AList.update ''stages''
             (JObj (AList.update ''prod'' example_stage_config [(''dev'', JObj [])])) example_config))"
    by simp
  show ?thesis
    using f p s r create_stage_with_config_merges [OF f p s r']
    by simp
qed

subsection \<open>The runners\<close>

lemma update_fresh: "k \<notin> fst ` set al \<Longrightarrow> AList.update k v al = al @ [(k, v)]"
  by (induction al) auto

lemma fold_update_distinct:
  "distinct (map fst (acc @ xs)) \<Longrightarrow>
     fold (\<lambda>(k, v) env. AList.update k v env) xs acc = acc @ xs"
proof (induction xs arbitrary: acc)
  case Nil
  then show ?case by simp
next
  case (Cons x xs)
  obtain k v where x: "x = (k, v)" by (cases x)
  from Cons.prems x have fresh: "k \<notin> fst ` set acc" by auto
  from Cons.prems x have "distinct (map fst ((acc @ [(k, v)]) @ xs))" by simp
  from Cons.IH [OF this] show ?case
    using fresh x by (simp add: update_fresh)
qed

lemma setdefault_lookup:
  "map_of (setdefault k v d) j =
     (if j = k then Some (case map_of d k of None \<Rightarrow> v | Some r \<Rightarrow> r) else map_of d j)"
  by (simp add: setdefault_def update_conv' split: option.splits)

lemma subprocess_env_lookup:
  assumes "distinct (map fst os_environ)"
  shows "map_of (subprocess_env os_environ) j =
     (if j = ''AWS_DEFAULT_REGION''
      then Some (case map_of os_environ ''AWS_DEFAULT_REGION'' of None \<Rightarrow> ''us-east-1'' | Some r \<Rightarrow> r)
      else map_of os_environ j)"
  using fold_update_distinct [of "[]" os_environ] assms
  by (simp add: subprocess_env_def setdefault_lookup)

lemma new_events_append: "events w' = events w @ es \<Longrightarrow> new_events w w' = es"
  by (simp add: new_events_def)

lemma subprocess_run_events:
  "events (snd (subprocess_run h args cwd env w)) = events w @ [SubprocessRun args cwd env]"
  by (simp add: subprocess_run_def emit_def Let_def split: option.splits prod.splits sum.splits)

lemma package_app_subprocess_events:
  "events (snd (package_app_subprocess h src st dir w)) =
     events w @ [Which ''chalice'', Stdout (''Packaging Chalice app for '' @ st),
                 SubprocessRun (subprocess_command h st dir) src (subprocess_env (environ h))]"
proof -
  let ?w = "emit (Stdout (''Packaging Chalice app for '' @ st)) (emit (Which ''chalice'') w)"
  have "snd (package_app_subprocess h src st dir w) =
          snd (subprocess_run h (subprocess_command h st dir) src (subprocess_env (environ h)) ?w)"
    by (simp add: package_app_subprocess_def Let_def split: prod.splits sum.splits)
  then show ?thesis
    by (simp add: subprocess_run_events emit_def)
qed

lemma package_app_container_events:
  "events (snd (package_app_container h src st dc dir w)) =
     events w @ (if docker_from_env h = None
                 then [DockerFromEnv, Stdout (''Packaging Chalice app for '' @ st),
                       ContainersRun (run_request src st dc dir)]
                 else [DockerFromEnv])"
  by (simp add: package_app_container_def Let_def emit_def split: option.splits prod.splits)

lemma package_app_container_result:
  assumes "docker_from_env h = None"
  shows "fst (package_app_container h src st dc dir w) =
     (case fst (containers_run h (run_request src st dc dir) (files w)) of
        None \<Rightarrow> Inr ()
      | Some e \<Rightarrow> if isinstance_NotFound e
                  then Inl (ChaliceError (unsupported_message (dc_image dc))) else Inl e)"
  using assms
  by (simp add: package_app_container_def Let_def emit_def split: option.splits prod.splits)

lemma package_app_subprocess_result:
  "fst (package_app_subprocess h src st dir w) =
     (case those (subprocess_command h st dir) of
        None \<Rightarrow> Inl TypeError
      | Some argv \<Rightarrow>
          (case fst (popen h argv src (subprocess_env (environ h)) (files w)) of
             Inl e \<Rightarrow> Inl e
           | Inr returncode \<Rightarrow> Inr ()))"
  by (simp add: package_app_subprocess_def subprocess_run_def Let_def emit_def
      split: option.splits prod.splits sum.splits)

text \<open>
  C9. A \<^verbatim>\<open>DockerConfig\<close> made with no image, or with the empty string, has the image
  \<^verbatim>\<open>lambci/lambda:build-python<major>.<minor>\<close> of the running interpreter's version; made
  with any other image, it has that image.
\<close>

theorem DockerConfig_init_image:
  "(image_arg = None \<or> image_arg = Some [] \<longrightarrow>
      dc_image (DockerConfig_init h image_arg env ic) =
        ''lambci/lambda:build-python'' @ str_nat (fst (version_info h)) @ ''.''
          @ str_nat (snd (version_info h)))
   \<and> (\<forall>s. image_arg = Some s \<and> s \<noteq> [] \<longrightarrow>
          dc_image (DockerConfig_init h image_arg env ic) = s)"
  by (auto simp add: DockerConfig_init_def Let_def)

theorem DockerConfig_init_image_witness:
  "dc_image (DockerConfig_init example_host None None None) = ''lambci/lambda:build-python3.8''
   \<and> dc_image (DockerConfig_init example_host (Some []) None None) = ''lambci/lambda:build-python3.8''
   \<and> dc_image (DockerConfig_init example_host (Some ''amazonlinux:2'') None None) = ''amazonlinux:2''"
proof -
  have v: "version_info example_host = (3, 8)"
    by (simp add: example_host_def)
  have d: "str_nat 3 = ''3''" "str_nat 8 = ''8''"
    by (simp_all add: str_nat.simps digit_char_def)
  show ?thesis
    using DockerConfig_init_image [of None example_host None None]
        DockerConfig_init_image [of "Some []" example_host None None]
        DockerConfig_init_image [of "Some ''amazonlinux:2''" example_host None None]
    by (simp add: v d)
qed

text \<open>
  C4. The calls that \<^verbatim>\<open>_package_app\<close> makes belong to the containerized runner alone
  where a \<^verbatim>\<open>docker_config\<close> is given, and to the local process runner alone where it is
  \<^verbatim>\<open>None\<close>: one of the two runners is used, never both and never neither.
\<close>

theorem package_app_runner_choice:
  "runners_used w (snd (package_app h src st dco w)) =
     (if dco \<noteq> None then {Containerized} else {LocalProcess})"
proof -
  let ?dir = "path_join (path_join (getcwd h) ''chalice.out'') (uuid4_hex h)"
  have w': "snd (package_app h src st dco w) =
      (if dco \<noteq> None then snd (package_app_container h src st (the dco) ?dir w)
       else snd (package_app_subprocess h src st ?dir w))"
    by (simp add: package_app_def Let_def split: prod.splits sum.splits)
  show ?thesis
    unfolding w' runners_used_def
    by (simp add: new_events_append [OF package_app_container_events]
        new_events_append [OF package_app_subprocess_events] List.map_filter_simps)
qed

theorem package_app_runner_choice_witness:
  "runners_used example_world (snd (package_app example_host ''/app'' ''prod'' None example_world))
     = {LocalProcess}
   \<and> runners_used example_world
        (snd (package_app example_host ''/app'' ''prod''
               (Some (DockerConfig_init example_host None None None)) example_world))
     = {Containerized}"
  using package_app_runner_choice [of example_world example_host "''/app''" "''prod''" None]
        package_app_runner_choice [of example_world example_host "''/app''" "''prod''"
          "Some (DockerConfig_init example_host None None None)"]
  by simp

text \<open>
  C5. The environment handed to \<^verbatim>\<open>subprocess.run\<close> is \<^verbatim>\<open>os.environ\<close> with
  \<^verbatim>\<open>AWS_DEFAULT_REGION\<close> as the caller set it, or \<^verbatim>\<open>us-east-1\<close> where the caller
  did not set it, and every other variable unchanged. The same holds of the environment
  of a \<^verbatim>\<open>DockerConfig\<close> against the \<^verbatim>\<open>env\<close> it was made with, and that environment is
  the one handed to \<^verbatim>\<open>client.containers.run\<close>. (\<^verbatim>\<open>os.environ\<close> is a mapping: its
  items have distinct keys.)
\<close>

theorem region_default:
  assumes "distinct (map fst (environ h))"
  shows "(let env = subprocess_env (environ h)
          in new_events w (snd (package_app_subprocess h src st dir w)) =
               [Which ''chalice'', Stdout (''Packaging Chalice app for '' @ st),
                SubprocessRun (subprocess_command h st dir) src env]
           \<and> map_of env ''AWS_DEFAULT_REGION'' =
               Some (case map_of (environ h) ''AWS_DEFAULT_REGION'' of
                       None \<Rightarrow> ''us-east-1'' | Some r \<Rightarrow> r)
           \<and> (\<forall>k. k \<noteq> ''AWS_DEFAULT_REGION'' \<longrightarrow> map_of env k = map_of (environ h) k))
       \<and> (let dc = DockerConfig_init h image_arg env_arg ic;
               given = (case env_arg of None \<Rightarrow> [] | Some d \<Rightarrow> d)
           in (docker_from_env h = None \<longrightarrow>
                 (\<exists>req. new_events w (snd (package_app_container h src st dc dir w)) =
                          [DockerFromEnv, Stdout (''Packaging Chalice app for '' @ st),
                           ContainersRun req]
                      \<and> req_environment req = dc_env dc))
            \<and> map_of (dc_env dc) ''AWS_DEFAULT_REGION'' =
                 Some (case map_of given ''AWS_DEFAULT_REGION'' of
                         None \<Rightarrow> ''us-east-1'' | Some r \<Rightarrow> r)
            \<and> (\<forall>k. k \<noteq> ''AWS_DEFAULT_REGION'' \<longrightarrow> map_of (dc_env dc) k = map_of given k))"
proof -
  have env: "dc_env (DockerConfig_init h image_arg env_arg ic) =
               setdefault ''AWS_DEFAULT_REGION'' ''us-east-1''
                 (case env_arg of None \<Rightarrow> [] | Some d \<Rightarrow> d)"
    by (auto simp add: DockerConfig_init_def Let_def split: option.splits)
  have req: "req_environment (run_request src st dc dir) = dc_env dc" for dc
    by (simp add: run_request_def Let_def)
  show ?thesis
    unfolding Let_def
    by (simp add: new_events_append [OF package_app_subprocess_events]
        new_events_append [OF package_app_container_events]
        subprocess_env_lookup [OF assms] env setdefault_lookup req)
qed

theorem region_default_witness:
  "distinct (map fst (environ example_host))
   \<and> map_of (subprocess_env (environ example_host)) ''AWS_DEFAULT_REGION'' = Some ''us-east-1''
   \<and> map_of (subprocess_env (environ example_host)) ''PATH'' = Some ''/usr/bin''
   \<and> map_of (subprocess_env (environ (example_host\<lparr>environ := [(''AWS_DEFAULT_REGION'', ''eu-west-1'')]\<rparr>)))
        ''AWS_DEFAULT_REGION'' = Some ''eu-west-1''
   \<and> map_of (dc_env (DockerConfig_init example_host None None None)) ''AWS_DEFAULT_REGION''
        = Some ''us-east-1''
   \<and> map_of (dc_env (DockerConfig_init example_host None
                 (Some [(''AWS_DEFAULT_REGION'', ''eu-west-1'')]) None)) ''AWS_DEFAULT_REGION''
        = Some ''eu-west-1''"
proof -
  have d1: "distinct (map fst (environ example_host))"
    by (simp add: example_host_def)
  have d2: "distinct (map fst (environ (example_host\<lparr>environ := [(''AWS_DEFAULT_REGION'', ''eu-west-1'')]\<rparr>)))"
    by simp
  have e: "environ example_host = [(''PATH'', ''/usr/bin'')]"
    by (simp add: example_host_def)
  have a: "map_of (subprocess_env (environ example_host)) ''AWS_DEFAULT_REGION'' = Some ''us-east-1''
        \<and> map_of (subprocess_env (environ example_host)) ''PATH'' = Some ''/usr/bin''
        \<and> map_of (dc_env (DockerConfig_init example_host None None None)) ''AWS_DEFAULT_REGION''
             = Some ''us-east-1''"
    using region_default [OF d1, of example_world "''/app''" "''prod''" "''/out''" None None None]
    by (auto simp add: Let_def e)
  have b: "map_of (subprocess_env (environ (example_host\<lparr>environ := [(''AWS_DEFAULT_REGION'', ''eu-west-1'')]\<rparr>)))
        ''AWS_DEFAULT_REGION'' = Some ''eu-west-1''"
    using region_default [OF d2, of example_world "''/app''" "''prod''" "''/out''" None None None]
    by (simp add: Let_def)
  have c: "map_of (dc_env (DockerConfig_init example_host None
                 (Some [(''AWS_DEFAULT_REGION'', ''eu-west-1'')]) None)) ''AWS_DEFAULT_REGION''
        = Some ''eu-west-1''"
    using region_default [OF d1, of example_world "''/app''" "''prod''" "''/out''" None
         "Some [(''AWS_DEFAULT_REGION'', ''eu-west-1'')]" None]
    by (simp add: Let_def)
  show ?thesis
    using d1 a b c by simp
qed

lemma sublist_unsupported_message: "sublist img (unsupported_message img)"
  unfolding unsupported_message_def sublist_def by blast

text \<open>
  C7, as the spec states it, fails in its second half. The \<^verbatim>\<open>except\<close> clause names
  \<^verbatim>\<open>docker.errors.NotFound\<close>, the class of every 404 answer of the daemon, so an error
  of that class that is not about the image (here the container is gone when docker-py
  removes it) does not reach the caller as it is: it becomes the \<^verbatim>\<open>ChaliceError\<close>
  about the image.
\<close>

theorem package_app_container_rewrites_any_NotFound:
  "fst (containers_run
          (example_host\<lparr>containers_run :=
             (\<lambda>req fs. (Some (NotFound ''No such container: 3f2a''), fs))\<rparr>)
          (run_request ''/app'' ''prod''
             \<lparr>dc_image = ''python:3.8'', dc_env = [], dc_init_commands = []\<rparr> ''/out'')
          (files example_world))
     = Some (NotFound ''No such container: 3f2a'')
   \<and> fst (package_app_container
            (example_host\<lparr>containers_run :=
               (\<lambda>req fs. (Some (NotFound ''No such container: 3f2a''), fs))\<rparr>)
            ''/app'' ''prod''
            \<lparr>dc_image = ''python:3.8'', dc_env = [], dc_init_commands = []\<rparr> ''/out'' example_world)
     = Inl (ChaliceError (unsupported_message ''python:3.8''))
   \<and> fst (package_app_container
            (example_host\<lparr>containers_run :=
               (\<lambda>req fs. (Some (NotFound ''No such container: 3f2a''), fs))\<rparr>)
            ''/app'' ''prod''
            \<lparr>dc_image = ''python:3.8'', dc_env = [], dc_init_commands = []\<rparr> ''/out'' example_world)
     \<noteq> Inl (NotFound ''No such container: 3f2a'')"
  by (simp add: package_app_container_result example_host_def)

text \<open>
  C7, amended. Where \<^verbatim>\<open>client.containers.run\<close> raises an exception of the class
  \<^verbatim>\<open>docker.errors.NotFound\<close> (its subclass \<^verbatim>\<open>ImageNotFound\<close> among them, and whatever
  the daemon did not find), the containerized runner raises \<^verbatim>\<open>ChaliceError\<close> with a
  message that contains the image of the configuration. Every exception of
  \<^verbatim>\<open>client.containers.run\<close> outside that class, and every exception of
  \<^verbatim>\<open>docker.from_env\<close>, reaches the caller as it is.
\<close>

theorem package_app_container_errors:
  "(docker_from_env h = Some e0 \<longrightarrow> fst (package_app_container h src st dc dir w) = Inl e0)
   \<and> (docker_from_env h = None
        \<and> fst (containers_run h (run_request src st dc dir) (files w)) = Some e \<longrightarrow>
        (if isinstance_NotFound e
         then (\<exists>message. fst (package_app_container h src st dc dir w) = Inl (ChaliceError message)
                 \<and> sublist (dc_image dc) message)
         else fst (package_app_container h src st dc dir w) = Inl e))"
proof -
  have "docker_from_env h = Some e0 \<Longrightarrow> fst (package_app_container h src st dc dir w) = Inl e0"
    by (simp add: package_app_container_def Let_def)
  then show ?thesis
    by (auto simp add: package_app_container_result sublist_unsupported_message)
qed

theorem package_app_container_errors_witness:
  "fst (package_app_container example_host ''/app'' ''prod''
          \<lparr>dc_image = ''python:2.6'', dc_env = [], dc_init_commands = []\<rparr> ''/out'' example_world)
     = Inl (ChaliceError (unsupported_message ''python:2.6''))
   \<and> sublist ''python:2.6'' (unsupported_message ''python:2.6'')
   \<and> fst (package_app_container (example_host\<lparr>containers_run := (\<lambda>req fs. (Some (ContainerError 2), fs))\<rparr>)
          ''/app'' ''prod''
          \<lparr>dc_image = ''python:2.6'', dc_env = [], dc_init_commands = []\<rparr> ''/out'' example_world)
     = Inl (ContainerError 2)
   \<and> fst (package_app_container (example_host\<lparr>docker_from_env := Some (DockerException ''no socket'')\<rparr>)
          ''/app'' ''prod''
          \<lparr>dc_image = ''python:2.6'', dc_env = [], dc_init_commands = []\<rparr> ''/out'' example_world)
     = Inl (DockerException ''no socket'')"
proof -
  let ?dc = "\<lparr>dc_image = ''python:2.6'', dc_env = [], dc_init_commands = []\<rparr>"
  have a: "fst (package_app_container example_host ''/app'' ''prod'' ?dc ''/out'' example_world)
     = Inl (ChaliceError (unsupported_message ''python:2.6''))"
    by (simp add: package_app_container_result example_host_def run_request_def)
  have "\<exists>message. fst (package_app_container example_host ''/app'' ''prod'' ?dc ''/out'' example_world)
           = Inl (ChaliceError message) \<and> sublist (dc_image ?dc) message"
    using package_app_container_errors [of example_host "DockerException []" "''/app''" "''prod''" ?dc "''/out''"
             example_world "ImageNotFound ''python:2.6''"]
    by (simp add: example_host_def run_request_def)
  with a have b: "sublist ''python:2.6'' (unsupported_message ''python:2.6'')"
    by simp
  have c: "fst (package_app_container (example_host\<lparr>containers_run := (\<lambda>req fs. (Some (ContainerError 2), fs))\<rparr>)
          ''/app'' ''prod'' ?dc ''/out'' example_world) = Inl (ContainerError 2)"
    using package_app_container_errors [of "example_host\<lparr>containers_run := (\<lambda>req fs. (Some (ContainerError 2), fs))\<rparr>"
             "DockerException []" "''/app''" "''prod''" ?dc "''/out''" example_world "ContainerError 2"]
    by (simp add: example_host_def)
  have d: "fst (package_app_container (example_host\<lparr>docker_from_env := Some (DockerException ''no socket'')\<rparr>)
          ''/app'' ''prod'' ?dc ''/out'' example_world) = Inl (DockerException ''no socket'')"
    using package_app_container_errors [of "example_host\<lparr>docker_from_env := Some (DockerException ''no socket'')\<rparr>"
             "DockerException ''no socket''" "''/app''" "''prod''" ?dc "''/out''" example_world "APIError []"]
    by simp
  show ?thesis using a b c d by simp
qed

text \<open>
  C6, as the spec states it, fails for the local process runner: the build process ends
  with exit status 1 and \<^verbatim>\<open>_package_app_subprocess\<close> returns without an exception.
\<close>

theorem package_app_subprocess_ignores_exit_status:
  "those (subprocess_command example_host ''prod'' ''/out'')
     = Some [''/usr/bin/chalice'', ''package'', ''--stage'', ''prod'', ''/out'']
   \<and> fst (popen example_host [''/usr/bin/chalice'', ''package'', ''--stage'', ''prod'', ''/out'']
            ''/app'' (subprocess_env (environ example_host)) (files example_world)) = Inr 1
   \<and> fst (package_app_subprocess example_host ''/app'' ''prod'' ''/out'' example_world) = Inr ()"
  by (simp add: package_app_subprocess_result subprocess_command_def example_host_def)

text \<open>
  C6, amended. The containerized runner raises whenever \<^verbatim>\<open>client.containers.run\<close>
  raises (docker-py raises \<^verbatim>\<open>ContainerError\<close> for a container that exits with a status
  other than 0). The local process runner raises where the executable is not found
  (TypeError, for the \<^verbatim>\<open>None\<close> in the argument list) and where the process does not
  start; where the process ran, it returns normally whatever the exit status is.
\<close>

theorem build_failure_propagation:
  "(docker_from_env h = None
      \<and> fst (containers_run h (run_request src st dc dir) (files w)) = Some e \<longrightarrow>
      (\<exists>e'. fst (package_app_container h src st dc dir w) = Inl e'))
   \<and> (those (subprocess_command h st dir) = None \<longrightarrow>
        fst (package_app_subprocess h src st dir w) = Inl TypeError)
   \<and> (those (subprocess_command h st dir) = Some argv
        \<and> fst (popen h argv src (subprocess_env (environ h)) (files w)) = Inl e \<longrightarrow>
        fst (package_app_subprocess h src st dir w) = Inl e)
   \<and> (those (subprocess_command h st dir) = Some argv
        \<and> fst (popen h argv src (subprocess_env (environ h)) (files w)) = Inr returncode \<longrightarrow>
        fst (package_app_subprocess h src st dir w) = Inr ())"
  by (simp add: package_app_container_result package_app_subprocess_result)

theorem build_failure_propagation_witness:
  "fst (package_app_container (example_host\<lparr>containers_run := (\<lambda>req fs. (Some (ContainerError 2), fs))\<rparr>)
          ''/app'' ''prod''
          \<lparr>dc_image = ''python:3.8'', dc_env = [], dc_init_commands = []\<rparr> ''/out'' example_world)
     = Inl (ContainerError 2)
   \<and> fst (package_app_subprocess (example_host\<lparr>shutil_which := (\<lambda>name. None)\<rparr>)
            ''/app'' ''prod'' ''/out'' example_world) = Inl TypeError
   \<and> fst (package_app_subprocess
            (example_host\<lparr>popen := (\<lambda>argv cwd env fs. (Inl (OSError ''Exec format error''), fs))\<rparr>)
            ''/app'' ''prod'' ''/out'' example_world) = Inl (OSError ''Exec format error'')
   \<and> fst (package_app_subprocess example_host ''/app'' ''prod'' ''/out'' example_world) = Inr ()"
proof -
  let ?dc = "\<lparr>dc_image = ''python:3.8'', dc_env = [], dc_init_commands = []\<rparr>"
  let ?argv = "[''/usr/bin/chalice'', ''package'', ''--stage'', ''prod'', ''/out'']"
  let ?h1 = "example_host\<lparr>containers_run := (\<lambda>req fs. (Some (ContainerError 2), fs))\<rparr>"
  let ?h2 = "example_host\<lparr>shutil_which := (\<lambda>name. None)\<rparr>"
  let ?h3 = "example_host\<lparr>popen := (\<lambda>argv cwd env fs. (Inl (OSError ''Exec format error''), fs))\<rparr>"
  have a: "fst (package_app_container ?h1 ''/app'' ''prod'' ?dc ''/out'' example_world)
             = Inl (ContainerError 2)"
    using build_failure_propagation [of ?h1 "''/app''" "''prod''" ?dc "''/out''" example_world
            "ContainerError 2" ?argv 0]
    by (simp add: example_host_def package_app_container_result)
  have b: "fst (package_app_subprocess ?h2 ''/app'' ''prod'' ''/out'' example_world) = Inl TypeError"
    using build_failure_propagation [of ?h2 "''/app''" "''prod''" ?dc "''/out''" example_world
            "ContainerError 2" ?argv 0]
    by (simp add: subprocess_command_def)
  have c: "fst (package_app_subprocess ?h3 ''/app'' ''prod'' ''/out'' example_world)
             = Inl (OSError ''Exec format error'')"
    using build_failure_propagation [of ?h3 "''/app''" "''prod''" ?dc "''/out''" example_world
            "OSError ''Exec format error''" ?argv 0]
    by (simp add: subprocess_command_def example_host_def)
  have d: "fst (package_app_subprocess example_host ''/app'' ''prod'' ''/out'' example_world) = Inr ()"
    using build_failure_propagation [of example_host "''/app''" "''prod''" ?dc "''/out''" example_world
            "ContainerError 2" ?argv 1]
    by (simp add: subprocess_command_def example_host_def)
  show ?thesis using a b c d by simp
qed

subsection \<open>The shell command of the containerized runner\<close>

lemma after_first_Some: "after_first p s = Some r \<Longrightarrow> \<exists>a. s = a @ p @ r"
proof (induction s)
  case Nil
  then show ?case by (simp split: if_splits)
next
  case (Cons c s)
  show ?case
  proof (cases "prefix p (c # s)")
    case True
    then obtain z where z: "c # s = p @ z" by (auto simp add: prefix_def)
    from Cons.prems True have "r = drop (length p) (c # s)" by simp
    with z have "c # s = [] @ p @ r" by simp
    then show ?thesis by blast
  next
    case False
    with Cons.prems have "after_first p s = Some r" by simp
    from Cons.IH [OF this] obtain a where "s = a @ p @ r" ..
    then have "c # s = (c # a) @ p @ r" by simp
    then show ?thesis by blast
  qed
qed

lemma after_first_occurs: "\<exists>r. after_first p (a @ p @ b) = Some r \<and> suffix b r"
proof (induction a)
  case Nil
  show ?case
  proof (cases "p @ b")
    case Nil
    then show ?thesis by simp
  next
    case (Cons c s)
    then have "after_first p (p @ b) = Some (drop (length p) (p @ b))"
      by (metis after_first.simps(2) prefixI)
    then show ?thesis by simp
  qed
next
  case (Cons c a)
  show ?case
  proof (cases "prefix p (c # a @ p @ b)")
    case True
    have "drop (length p) (c # a @ p @ b) = drop (length p) ((c # a) @ p) @ b"
      using drop_append [of "length p" "(c # a) @ p" b] by simp
    then have "suffix b (drop (length p) (c # a @ p @ b))"
      by (simp add: suffix_def)
    with True show ?thesis by simp
  next
    case False
    with Cons.IH show ?thesis by simp
  qed
qed

lemma in_order_suffix: "in_order ps b \<Longrightarrow> suffix b s \<Longrightarrow> in_order ps s"
proof (induction ps arbitrary: b s)
  case Nil
  then show ?case by simp
next
  case (Cons p ps)
  from Cons.prems(1) obtain r1 where r1: "after_first p b = Some r1" "in_order ps r1"
    by (auto split: option.splits)
  from after_first_Some [OF r1(1)] obtain x where "b = x @ p @ r1" ..
  moreover from Cons.prems(2) obtain y where "s = y @ b" by (auto simp add: suffix_def)
  ultimately have "s = (y @ x) @ p @ r1" by simp
  with after_first_occurs [of p "y @ x" r1]
  obtain r2 where r2: "after_first p s = Some r2" "suffix r1 r2" by auto
  from Cons.IH [OF r1(2) r2(2)] r2(1) show ?case by simp
qed

text \<open>
  \<open>in_order\<close> takes the first occurrence of each string, and that loses nothing: the
  strings occur in order exactly if the text splits around the first of them with the
  others in order in what follows it.
\<close>

lemma in_order_Cons_iff:
  "in_order (p # ps) s \<longleftrightarrow> (\<exists>a b. s = a @ p @ b \<and> in_order ps b)"
proof
  assume "in_order (p # ps) s"
  then obtain r where r: "after_first p s = Some r" "in_order ps r"
    by (auto split: option.splits)
  from after_first_Some [OF r(1)] r(2) show "\<exists>a b. s = a @ p @ b \<and> in_order ps b"
    by blast
next
  assume "\<exists>a b. s = a @ p @ b \<and> in_order ps b"
  then obtain a b where s: "s = a @ p @ b" and b: "in_order ps b" by blast
  from after_first_occurs [of p a b] s obtain r where "after_first p s = Some r" "suffix b r"
    by auto
  with in_order_suffix [OF b] show "in_order (p # ps) s" by simp
qed

lemma in_order_commands:
  "in_order ps t \<Longrightarrow> in_order (cmds @ ps) (concat (map (\<lambda>command. command @ ''; '') cmds) @ t)"
proof (induction cmds)
  case Nil
  then show ?case by simp
next
  case (Cons c cmds)
  let ?rest = "concat (map (\<lambda>command. command @ ''; '') cmds) @ t"
  from Cons have "in_order (cmds @ ps) ?rest" by simp
  then have "in_order (cmds @ ps) (''; '' @ ?rest)"
    by (rule in_order_suffix) (simp add: suffix_def)
  then have "in_order (c # cmds @ ps) ([] @ c @ ''; '' @ ?rest)"
    unfolding in_order_Cons_iff by blast
  then show ?case by simp
qed

text \<open>
  C8. In the shell command of the containerized runner the init commands occur in the
  order of the configuration, after them the command that installs the dependencies,
  and after it \<^verbatim>\<open>chalice package --stage <stage_name> /chalice.out\<close>.
\<close>

theorem docker_command_in_order:
  "in_order (dc_init_commands dc
               @ [''pip install --no-cache-dir -r requirements.txt'',
                  ''chalice package --stage '' @ stage_name @ '' /chalice.out''])
            (docker_command dc stage_name)"
proof -
  let ?pip = "''pip install --no-cache-dir -r requirements.txt''"
  let ?pkg = "''chalice package --stage '' @ stage_name @ '' /chalice.out''"
  have "in_order [?pkg] (''; '' @ ?pkg @ ''\"'')"
    unfolding in_order_Cons_iff by (metis in_order.simps(1))
  then have "in_order [?pip, ?pkg] ([] @ ?pip @ ''; '' @ ?pkg @ ''\"'')"
    unfolding in_order_Cons_iff [of ?pip] by blast
  then have "in_order (dc_init_commands dc @ [?pip, ?pkg])
               (concat (map (\<lambda>command. command @ ''; '') (dc_init_commands dc))
                  @ [] @ ?pip @ ''; '' @ ?pkg @ ''\"'')"
    by (rule in_order_commands)
  then have "in_order (dc_init_commands dc @ [?pip, ?pkg])
               (''bash -c \"'' @ concat (map (\<lambda>command. command @ ''; '') (dc_init_commands dc))
                  @ [] @ ?pip @ ''; '' @ ?pkg @ ''\"'')"
    by (rule in_order_suffix) (simp add: suffix_def)
  then show ?thesis
    by (simp add: docker_command_def)
qed

theorem docker_command_in_order_witness:
  "docker_command \<lparr>dc_image = ''python:3.8'', dc_env = [],
                   dc_init_commands = [''pip install awscli --upgrade'', ''pip install chalice'']\<rparr>
                  ''prod''
     = ''bash -c \"pip install awscli --upgrade; pip install chalice; pip install --no-cache-dir -r requirements.txt; chalice package --stage prod /chalice.out\"''
   \<and> in_order [''pip install awscli --upgrade'', ''pip install chalice'',
               ''pip install --no-cache-dir -r requirements.txt'',
               ''chalice package --stage prod /chalice.out'']
        ''bash -c \"pip install awscli --upgrade; pip install chalice; pip install --no-cache-dir -r requirements.txt; chalice package --stage prod /chalice.out\"''"
  using docker_command_in_order [of "\<lparr>dc_image = ''python:3.8'', dc_env = [],
                   dc_init_commands = [''pip install awscli --upgrade'', ''pip install chalice'']\<rparr>"
                  "''prod''"]
  by (simp add: docker_command_def)

subsection \<open>The manifest rewriter\<close>

lemma select_functions_marks:
  "select_functions kvs = Inr bs \<Longrightarrow> map (\<lambda>(k, v). is_function v) kvs = map Inr bs"
proof (induction kvs arbitrary: bs)
  case Nil
  then show ?case by simp
next
  case (Cons kv kvs)
  obtain k v where kv: "kv = (k, v)" by (cases kv)
  from Cons.prems kv obtain b bs' where
    "is_function v = Inr b" "select_functions kvs = Inr bs'" "bs = b # bs'"
    by (auto split: sum.splits)
  with Cons.IH [of bs'] kv show ?case by simp
qed

lemma select_functions_nth:
  assumes "select_functions kvs = Inr bs"
  shows "length bs = length kvs"
    and "i < length kvs \<Longrightarrow> is_function (snd (kvs ! i)) = Inr (bs ! i)"
proof -
  from select_functions_marks [OF assms]
  have m: "map (\<lambda>(k, v). is_function v) kvs = map Inr bs" .
  from m show len: "length bs = length kvs"
    by (metis length_map)
  assume i: "i < length kvs"
  from m have "map (\<lambda>(k, v). is_function v) kvs ! i = map Inr bs ! i" by simp
  with i len show "is_function (snd (kvs ! i)) = Inr (bs ! i)"
    by (simp add: case_prod_unfold)
qed

lemma for_functions_maps:
  "length bs = length kvs \<Longrightarrow> for_functions c bs kvs = Inr kvs' \<Longrightarrow>
     map fst kvs' = map fst kvs
   \<and> map (\<lambda>(b, (k, v)). if b then patch_function c v else Inr v) (zip bs kvs)
       = map (\<lambda>(k', v'). Inr v') kvs'"
proof (induction kvs arbitrary: bs kvs')
  case Nil
  then show ?case by simp
next
  case (Cons kv kvs)
  obtain k v where kv: "kv = (k, v)" by (cases kv)
  from Cons.prems(1) obtain b bs' where bs: "bs = b # bs'" and len: "length bs' = length kvs"
    by (cases bs) auto
  show ?case
  proof (cases b)
    case True
    with Cons.prems(2) kv bs obtain v' rest where
      "patch_function c v = Inr v'" "for_functions c bs' kvs = Inr rest" "kvs' = (k, v') # rest"
      by (auto split: sum.splits)
    with Cons.IH [OF len, of rest] True kv bs show ?thesis by simp
  next
    case False
    with Cons.prems(2) kv bs obtain rest where
      "for_functions c bs' kvs = Inr rest" "kvs' = (k, v) # rest"
      by (auto split: sum.splits)
    with Cons.IH [OF len, of rest] False kv bs show ?thesis by simp
  qed
qed

lemma for_functions_nth:
  assumes "length bs = length kvs" and "for_functions c bs kvs = Inr kvs'"
  shows "length kvs' = length kvs"
    and "map fst kvs' = map fst kvs"
    and "i < length kvs \<Longrightarrow> bs ! i \<Longrightarrow> patch_function c (snd (kvs ! i)) = Inr (snd (kvs' ! i))"
    and "i < length kvs \<Longrightarrow> \<not> bs ! i \<Longrightarrow> kvs' ! i = kvs ! i"
proof -
  from for_functions_maps [OF assms]
  have keys: "map fst kvs' = map fst kvs"
    and vals: "map (\<lambda>(b, (k, v)). if b then patch_function c v else Inr v) (zip bs kvs)
                 = map (\<lambda>(k', v'). Inr v') kvs'"
    by simp_all
  from keys show len: "length kvs' = length kvs"
    by (metis length_map)
  from keys show "map fst kvs' = map fst kvs" .
  {
    assume i: "i < length kvs"
    have z: "zip bs kvs ! i = (bs ! i, kvs ! i)"
      using i assms(1) by simp
    from vals have "map (\<lambda>(b, (k, v)). if b then patch_function c v else Inr v) (zip bs kvs) ! i
                 = map (\<lambda>(k', v'). Inr v') kvs' ! i"
      by simp
    moreover have "map (\<lambda>(b, (k, v)). if b then patch_function c v else Inr v) (zip bs kvs) ! i
                 = (if bs ! i then patch_function c (snd (kvs ! i)) else Inr (snd (kvs ! i)))"
      using i assms(1) by (simp add: z case_prod_unfold)
    moreover have "map (\<lambda>(k', v'). Inr v') kvs' ! i = Inr (snd (kvs' ! i))"
      using i len by (simp add: case_prod_unfold)
    ultimately
    have "(if bs ! i then patch_function c (snd (kvs ! i)) else Inr (snd (kvs ! i)))
            = Inr (snd (kvs' ! i))"
      by simp
    moreover from keys have "map fst kvs' ! i = map fst kvs ! i" by simp
    with i len have "fst (kvs' ! i) = fst (kvs ! i)" by simp
    ultimately have "fst (kvs' ! i) = fst (kvs ! i)
       \<and> (if bs ! i then patch_function c (snd (kvs ! i)) else Inr (snd (kvs ! i)))
            = Inr (snd (kvs' ! i))"
      by simp
  }
  note at = this
  show "i < length kvs \<Longrightarrow> bs ! i \<Longrightarrow> patch_function c (snd (kvs ! i)) = Inr (snd (kvs' ! i))"
    using at by simp
  show "i < length kvs \<Longrightarrow> \<not> bs ! i \<Longrightarrow> kvs' ! i = kvs ! i"
    using at by (simp add: prod_eq_iff)
qed

lemma patch_function_Inr:
  assumes "patch_function c v = Inr v'"
  obtains entries ps where "v = JObj entries"
    and "map_of entries ''Properties'' = Some (JObj ps)"
    and "v' = JObj (AList.update ''Properties'' (JObj (AList.update ''CodeUri'' c ps)) entries)"
proof -
  from assms obtain entries where v: "v = JObj entries"
    by (cases v) (simp_all add: patch_function_def)
  with assms obtain p where p: "map_of entries ''Properties'' = Some p"
    by (auto simp add: patch_function_def split: option.splits)
  with assms v obtain ps where ps: "p = JObj ps"
    by (cases p) (simp_all add: patch_function_def)
  from assms v p ps
  have "v' = JObj (AList.update ''Properties'' (JObj (AList.update ''CodeUri'' c ps)) entries)"
    by (simp add: patch_function_def)
  with v p ps that show thesis by simp
qed

lemma is_function_well_formed:
  "well_formed_resource v \<Longrightarrow> \<exists>b. is_function v = Inr b"
  by (cases v) (auto simp add: is_function_def split: option.splits)

lemma patch_function_well_formed:
  "well_formed_resource v \<Longrightarrow> is_function v = Inr True \<Longrightarrow> \<exists>v'. patch_function c v = Inr v'"
  by (cases v) (auto simp add: is_function_def patch_function_def split: option.splits json.splits)

lemma select_functions_well_formed:
  "\<forall>(k, v) \<in> set kvs. well_formed_resource v \<Longrightarrow> \<exists>bs. select_functions kvs = Inr bs"
proof (induction kvs)
  case Nil
  then show ?case by simp
next
  case (Cons kv kvs)
  obtain k v where kv: "kv = (k, v)" by (cases kv)
  with Cons.prems have "well_formed_resource v" by simp
  from is_function_well_formed [OF this] obtain b where "is_function v = Inr b" ..
  moreover from Cons obtain bs where "select_functions kvs = Inr bs" by auto
  ultimately show ?case using kv by simp
qed

lemma for_functions_well_formed:
  "\<forall>(k, v) \<in> set kvs. well_formed_resource v \<Longrightarrow> select_functions kvs = Inr bs \<Longrightarrow>
     \<exists>kvs'. for_functions c bs kvs = Inr kvs'"
proof (induction kvs arbitrary: bs)
  case Nil
  then show ?case by simp
next
  case (Cons kv kvs)
  obtain k v where kv: "kv = (k, v)" by (cases kv)
  from Cons.prems(2) kv obtain b bs' where
    b: "is_function v = Inr b" and bs': "select_functions kvs = Inr bs'" and bs: "bs = b # bs'"
    by (auto split: sum.splits)
  from Cons.prems(1) kv have wf: "well_formed_resource v" by simp
  from Cons.prems(1) have "\<forall>(k, v) \<in> set kvs. well_formed_resource v" by simp
  from Cons.IH [OF this bs'] obtain kvs' where rest: "for_functions c bs' kvs = Inr kvs'" ..
  show ?case
  proof (cases b)
    case True
    with patch_function_well_formed [OF wf, of c] b obtain v' where "patch_function c v = Inr v'"
      by auto
    with rest True kv bs show ?thesis by simp
  next
    case False
    with rest kv bs show ?thesis by simp
  qed
qed

lemma Asset_present:
  "files w path = Some blob \<Longrightarrow>
     Asset h ident path w =
       (Inr (asset_of h path blob),
        (emit (NewAsset ident path) w)\<lparr>assets := assets w @ [asset_of h path blob]\<rparr>)"
  by (simp add: Asset_def Let_def emit_def)

lemma Asset_missing:
  "files w path = None \<Longrightarrow>
     Asset h ident path w = (Inl (AssetNotFound path), emit (NewAsset ident path) w)"
  by (simp add: Asset_def Let_def emit_def)

text \<open>The world after the rewrite, whatever it returns.\<close>

lemma update_sam_template_world:
  "snd (update_sam_template h dir w) =
     (case files w (path_join dir ''deployment.zip'') of
        None \<Rightarrow> emit (NewAsset ''ChaliceAppCode'' (path_join dir ''deployment.zip'')) w
      | Some blob \<Rightarrow>
          emit (Opened (path_join dir ''sam.json''))
            ((emit (NewAsset ''ChaliceAppCode'' (path_join dir ''deployment.zip'')) w)
               \<lparr>assets := assets w @ [asset_of h (path_join dir ''deployment.zip'') blob]\<rparr>))"
proof (cases "files w (path_join dir ''deployment.zip'')")
  case None
  then show ?thesis
    by (simp add: update_sam_template_def Asset_missing)
next
  case (Some blob)
  then show ?thesis
    by (simp add: update_sam_template_def Asset_present Let_def
        split: option.splits sum.splits)
qed

text \<open>What the rewrite returns, where the archive is there.\<close>

lemma update_sam_template_result:
  assumes "files w (path_join dir ''deployment.zip'') = Some blob"
  shows "fst (update_sam_template h dir w) =
     (case files w (path_join dir ''sam.json'') of
        None \<Rightarrow> Inl (FileNotFoundError (path_join dir ''sam.json''))
      | Some t \<Rightarrow>
         (case json_loads h t of
            None \<Rightarrow> Inl JSONDecodeError
          | Some sam_template \<Rightarrow>
             (case getitem sam_template ''Resources'' of
                Inl e \<Rightarrow> Inl e
              | Inr resources \<Rightarrow>
                 (case items resources of
                    Inl e \<Rightarrow> Inl e
                  | Inr kvs \<Rightarrow>
                     (case select_functions kvs of
                        Inl e \<Rightarrow> Inl e
                      | Inr functions \<Rightarrow>
                         (case for_functions
                                 (code_uri_of (asset_of h (path_join dir ''deployment.zip'') blob))
                                 functions kvs of
                            Inl e \<Rightarrow> Inl e
                          | Inr kvs' \<Rightarrow>
                              Inr (seen_through sam_template ''Resources'' (JObj kvs'))))))))"
  using assms
  by (simp add: update_sam_template_def Asset_present Let_def emit_def
      split: option.splits sum.splits)

text \<open>
  C2. Where the archive and the manifest are there, the manifest parses to a dict with
  a dict of resources, and every resource is well formed, the rewrite succeeds; it
  calls \<^verbatim>\<open>assets.Asset\<close> once, on the archive, which adds one asset \<open>a\<close>, and every
  function resource of the result has under \<^verbatim>\<open>Properties\<close>, \<^verbatim>\<open>CodeUri\<close> the dict
  with the two entries \<^verbatim>\<open>Bucket\<close>, the \<^verbatim>\<open>s3_bucket_name\<close> of \<open>a\<close>, and \<^verbatim>\<open>Key\<close>, the
  \<^verbatim>\<open>s3_object_key\<close> of \<open>a\<close>.
\<close>

theorem update_sam_template_code_uri:
  assumes "files w (path_join dir ''deployment.zip'') = Some blob"
      and "files w (path_join dir ''sam.json'') = Some t"
      and "json_loads h t = Some (JObj doc)"
      and "map_of doc ''Resources'' = Some (JObj kvs)"
      and "\<forall>(k, v) \<in> set kvs. well_formed_resource v"
  shows "\<exists>w' doc' kvs' a.
           update_sam_template h dir w = (Inr (JObj doc'), w')
         \<and> new_events w w' = [NewAsset ''ChaliceAppCode'' (path_join dir ''deployment.zip''),
                              Opened (path_join dir ''sam.json'')]
         \<and> a = asset_of h (path_join dir ''deployment.zip'') blob
         \<and> assets w' = assets w @ [a]
         \<and> map_of doc' ''Resources'' = Some (JObj kvs')
         \<and> map fst kvs' = map fst kvs
         \<and> (\<forall>i < length kvs.
               is_function (snd (kvs ! i)) = Inr True \<longrightarrow>
                 lookup_path (snd (kvs' ! i)) [''Properties'', ''CodeUri'']
                   = Some (JObj [(''Bucket'', JStr (s3_bucket_name a)),
                                 (''Key'', JStr (s3_object_key a))]))"
proof -
  let ?a = "asset_of h (path_join dir ''deployment.zip'') blob"
  let ?ref = "JObj [(''Bucket'', JStr (s3_bucket_name ?a)), (''Key'', JStr (s3_object_key ?a))]"
  have ref: "code_uri_of ?a = ?ref"
    by (simp add: code_uri_of_def)
  from select_functions_well_formed [OF assms(5)]
  obtain bs where bs: "select_functions kvs = Inr bs" ..
  from for_functions_well_formed [OF assms(5) bs]
  obtain kvs' where kvs': "for_functions (code_uri_of ?a) bs kvs = Inr kvs'" ..
  note len = select_functions_nth(1) [OF bs]
  let ?doc' = "AList.update ''Resources'' (JObj kvs') doc"
  have res: "fst (update_sam_template h dir w) = Inr (JObj ?doc')"
    using assms(2-4) bs kvs' by (simp add: update_sam_template_result [OF assms(1)])
  have world: "assets (snd (update_sam_template h dir w)) = assets w @ [?a]"
    using assms(1) by (simp add: update_sam_template_world emit_def)
  have calls: "new_events w (snd (update_sam_template h dir w))
                 = [NewAsset ''ChaliceAppCode'' (path_join dir ''deployment.zip''),
                    Opened (path_join dir ''sam.json'')]"
    using assms(1) by (simp add: update_sam_template_world emit_def new_events_def)
  have uri: "lookup_path (snd (kvs' ! i)) [''Properties'', ''CodeUri''] = Some ?ref"
    if i: "i < length kvs" and f: "is_function (snd (kvs ! i)) = Inr True" for i
  proof -
    from select_functions_nth(2) [OF bs i] f have "bs ! i" by simp
    from for_functions_nth(3) [OF len kvs' i this]
    have "patch_function (code_uri_of ?a) (snd (kvs ! i)) = Inr (snd (kvs' ! i))" .
    then have "lookup_path (snd (kvs' ! i)) [''Properties'', ''CodeUri''] = Some (code_uri_of ?a)"
      by (rule patch_function_Inr) (simp add: update_conv')
    with ref show ?thesis by simp
  qed
  have "update_sam_template h dir w = (Inr (JObj ?doc'), snd (update_sam_template h dir w))"
    using res by (simp add: prod_eq_iff)
  moreover have "map_of ?doc' ''Resources'' = Some (JObj kvs')"
    by (simp add: update_conv')
  moreover note calls world for_functions_nth(2) [OF len kvs'] uri
  ultimately show ?thesis by blast
qed

theorem update_sam_template_code_uri_witness:
  "files example_world (path_join ''/out'' ''deployment.zip'') = Some ''PK''
   \<and> files example_world (path_join ''/out'' ''sam.json'') = Some ''SAM''
   \<and> json_loads
        (example_host\<lparr>asset_of := (\<lambda>path blob.
            \<lparr>s3_bucket_name = ''cdk-'' @ blob, s3_object_key = path\<rparr>)\<rparr>) ''SAM''
        = Some example_sam
   \<and> (\<exists>w' doc' kvs'.
         update_sam_template
           (example_host\<lparr>asset_of := (\<lambda>path blob.
               \<lparr>s3_bucket_name = ''cdk-'' @ blob, s3_object_key = path\<rparr>)\<rparr>)
           ''/out'' example_world = (Inr (JObj doc'), w')
       \<and> new_events example_world w'
           = [NewAsset ''ChaliceAppCode'' ''/out/deployment.zip'', Opened ''/out/sam.json'']
       \<and> assets w' = [\<lparr>s3_bucket_name = ''cdk-PK'', s3_object_key = ''/out/deployment.zip''\<rparr>]
       \<and> map_of doc' ''Resources'' = Some (JObj kvs')
       \<and> map fst kvs' = [''APIHandler'', ''RestAPI'']
       \<and> lookup_path (snd (kvs' ! 0)) [''Properties'', ''CodeUri'']
           = Some (JObj [(''Bucket'', JStr ''cdk-PK''), (''Key'', JStr ''/out/deployment.zip'')]))"
proof -
  let ?h = "example_host\<lparr>asset_of := (\<lambda>path blob.
               \<lparr>s3_bucket_name = ''cdk-'' @ blob, s3_object_key = path\<rparr>)\<rparr>"
  let ?kvs = "[(''APIHandler'',
                 JObj [(''Type'', JStr ''AWS::Serverless::Function''),
                       (''Properties'', JObj [(''Runtime'', JStr ''python3.8''),
                                              (''CodeUri'', JStr ''./deployment.zip'')])]),
              (''RestAPI'',
                 JObj [(''Type'', JStr ''AWS::Serverless::Api''),
                       (''Properties'', JObj [(''StageName'', JStr ''api'')])])]"
  have pz: "path_join ''/out'' ''deployment.zip'' = ''/out/deployment.zip''"
    and ps: "path_join ''/out'' ''sam.json'' = ''/out/sam.json''"
    by (simp_all add: path_join_def)
  have z: "files example_world (path_join ''/out'' ''deployment.zip'') = Some ''PK''"
    by (simp add: example_world_def path_join_def)
  have s: "files example_world (path_join ''/out'' ''sam.json'') = Some ''SAM''"
    by (simp add: example_world_def path_join_def)
  have p: "json_loads ?h ''SAM'' = Some (JObj [(''Resources'', JObj ?kvs)])"
    by (simp add: example_host_def example_sam_def)
  have r: "map_of [(''Resources'', JObj ?kvs)] ''Resources'' = Some (JObj ?kvs)"
    by simp
  have wf: "\<forall>(k, v) \<in> set ?kvs. well_formed_resource v"
    by simp
  have a: "asset_of ?h ''/out/deployment.zip'' ''PK''
             = \<lparr>s3_bucket_name = ''cdk-PK'', s3_object_key = ''/out/deployment.zip''\<rparr>"
    by simp
  have e: "assets example_world = []"
    by (simp add: example_world_def)
  have f: "is_function (snd (?kvs ! 0)) = Inr True"
    by (simp add: is_function_def)
  from update_sam_template_code_uri [OF z s p r wf]
  obtain w' doc' kvs' where
    "update_sam_template ?h ''/out'' example_world = (Inr (JObj doc'), w')"
    "new_events example_world w'
       = [NewAsset ''ChaliceAppCode'' (path_join ''/out'' ''deployment.zip''),
          Opened (path_join ''/out'' ''sam.json'')]"
    "assets w' = assets example_world
        @ [asset_of ?h (path_join ''/out'' ''deployment.zip'') ''PK'']"
    "map_of doc' ''Resources'' = Some (JObj kvs')"
    "map fst kvs' = map fst ?kvs"
    "\<forall>i < length ?kvs. is_function (snd (?kvs ! i)) = Inr True \<longrightarrow>
        lookup_path (snd (kvs' ! i)) [''Properties'', ''CodeUri'']
          = Some (JObj [(''Bucket'', JStr (s3_bucket_name
                           (asset_of ?h (path_join ''/out'' ''deployment.zip'') ''PK''))),
                        (''Key'', JStr (s3_object_key
                           (asset_of ?h (path_join ''/out'' ''deployment.zip'') ''PK'')))])"
    by blast
  moreover from this(6) f
  have "lookup_path (snd (kvs' ! 0)) [''Properties'', ''CodeUri'']
          = Some (JObj [(''Bucket'', JStr (s3_bucket_name
                           (asset_of ?h (path_join ''/out'' ''deployment.zip'') ''PK''))),
                        (''Key'', JStr (s3_object_key
                           (asset_of ?h (path_join ''/out'' ''deployment.zip'') ''PK'')))])"
    by simp
  ultimately show ?thesis
    using z s p unfolding pz ps by (simp add: e example_sam_def)
qed

lemma same_except_update: "same_except k d (AList.update k v d)"
  by (auto simp add: same_except_def update_conv' update_keys)

text \<open>
  C3. The rewrite leaves the manifest file as it was. Where it returns a manifest, that
  is the parsed manifest file with nothing changed off \<^verbatim>\<open>Resources\<close>; there the resources
  keep their names and order, a resource that is not a function is unchanged, and a
  function resource is unchanged off \<^verbatim>\<open>Properties\<close>, its \<^verbatim>\<open>Properties\<close> unchanged off
  \<^verbatim>\<open>CodeUri\<close>.
\<close>

theorem update_sam_template_frame:
  "files (snd (update_sam_template h dir w)) (path_join dir ''sam.json'')
     = files w (path_join dir ''sam.json'')
   \<and> (\<forall>m'. fst (update_sam_template h dir w) = Inr m' \<longrightarrow>
        (\<exists>t doc doc' kvs kvs'.
            files w (path_join dir ''sam.json'') = Some t
          \<and> json_loads h t = Some (JObj doc)
          \<and> m' = JObj doc'
          \<and> same_except ''Resources'' doc doc'
          \<and> map_of doc ''Resources'' = Some (JObj kvs)
          \<and> map_of doc' ''Resources'' = Some (JObj kvs')
          \<and> map fst kvs' = map fst kvs
          \<and> (\<forall>i < length kvs.
                (is_function (snd (kvs ! i)) = Inr False \<and> kvs' ! i = kvs ! i)
              \<or> (is_function (snd (kvs ! i)) = Inr True
                  \<and> (\<exists>entries entries' ps ps'.
                        snd (kvs ! i) = JObj entries
                      \<and> snd (kvs' ! i) = JObj entries'
                      \<and> same_except ''Properties'' entries entries'
                      \<and> map_of entries ''Properties'' = Some (JObj ps)
                      \<and> map_of entries' ''Properties'' = Some (JObj ps')
                      \<and> same_except ''CodeUri'' ps ps')))))"
proof (intro conjI allI impI)
  show "files (snd (update_sam_template h dir w)) (path_join dir ''sam.json'')
          = files w (path_join dir ''sam.json'')"
    by (simp add: update_sam_template_world emit_def split: option.splits)
next
  fix m'
  assume ok: "fst (update_sam_template h dir w) = Inr m'"
  let ?zip = "path_join dir ''deployment.zip''"
  obtain blob where blob: "files w ?zip = Some blob"
  proof (cases "files w ?zip")
    case None
    with ok show ?thesis
      by (simp add: update_sam_template_def Asset_missing)
  next
    case (Some blob)
    with that show ?thesis .
  qed
  let ?c = "code_uri_of (asset_of h ?zip blob)"
  note r = ok [unfolded update_sam_template_result [OF blob]]
  from r obtain t where t: "files w (path_join dir ''sam.json'') = Some t"
    by (auto split: option.splits)
  from r t obtain m where m: "json_loads h t = Some m"
    by (auto split: option.splits)
  from r t m obtain resources where resources: "getitem m ''Resources'' = Inr resources"
    by (auto split: sum.splits)
  then obtain doc where doc: "m = JObj doc" and rs: "map_of doc ''Resources'' = Some resources"
    by (cases m) (auto split: option.splits)
  from r t m resources obtain kvs where kvs: "items resources = Inr kvs"
    by (auto split: sum.splits)
  then have resources_eq: "resources = JObj kvs"
    by (cases resources) auto
  from r t m resources kvs obtain bs where bs: "select_functions kvs = Inr bs"
    by (auto split: sum.splits)
  from r t m resources kvs bs obtain kvs' where kvs': "for_functions ?c bs kvs = Inr kvs'"
    by (auto split: sum.splits)
  from r t m resources kvs bs kvs' doc
  have m': "m' = JObj (AList.update ''Resources'' (JObj kvs') doc)"
    by simp
  note len = select_functions_nth(1) [OF bs]
  have each: "(is_function (snd (kvs ! i)) = Inr False \<and> kvs' ! i = kvs ! i)
              \<or> (is_function (snd (kvs ! i)) = Inr True
                  \<and> (\<exists>entries entries' ps ps'.
                        snd (kvs ! i) = JObj entries
                      \<and> snd (kvs' ! i) = JObj entries'
                      \<and> same_except ''Properties'' entries entries'
                      \<and> map_of entries ''Properties'' = Some (JObj ps)
                      \<and> map_of entries' ''Properties'' = Some (JObj ps')
                      \<and> same_except ''CodeUri'' ps ps'))"
    if i: "i < length kvs" for i
  proof (cases "bs ! i")
    case False
    with select_functions_nth(2) [OF bs i] for_functions_nth(4) [OF len kvs' i]
    show ?thesis by simp
  next
    case True
    from for_functions_nth(3) [OF len kvs' i True]
    have "patch_function ?c (snd (kvs ! i)) = Inr (snd (kvs' ! i))" .
    then obtain entries ps where
      "snd (kvs ! i) = JObj entries"
      "map_of entries ''Properties'' = Some (JObj ps)"
      "snd (kvs' ! i) =
         JObj (AList.update ''Properties'' (JObj (AList.update ''CodeUri'' ?c ps)) entries)"
      by (rule patch_function_Inr)
    moreover have "same_except ''Properties'' entries
        (AList.update ''Properties'' (JObj (AList.update ''CodeUri'' ?c ps)) entries)"
      by (rule same_except_update)
    moreover have "map_of (AList.update ''Properties'' (JObj (AList.update ''CodeUri'' ?c ps)) entries)
        ''Properties'' = Some (JObj (AList.update ''CodeUri'' ?c ps))"
      by (simp add: update_conv')
    moreover have "same_except ''CodeUri'' ps (AList.update ''CodeUri'' ?c ps)"
      by (rule same_except_update)
    moreover from select_functions_nth(2) [OF bs i] True
    have "is_function (snd (kvs ! i)) = Inr True" by simp
    ultimately show ?thesis by blast
  qed
  have "same_except ''Resources'' doc (AList.update ''Resources'' (JObj kvs') doc)"
    by (rule same_except_update)
  moreover have "map_of (AList.update ''Resources'' (JObj kvs') doc) ''Resources'' = Some (JObj kvs')"
    by (simp add: update_conv')
  moreover note t m [unfolded doc] m' rs [unfolded resources_eq] for_functions_nth(2) [OF len kvs'] each
  ultimately show "\<exists>t doc doc' kvs kvs'.
            files w (path_join dir ''sam.json'') = Some t
          \<and> json_loads h t = Some (JObj doc)
          \<and> m' = JObj doc'
          \<and> same_except ''Resources'' doc doc'
          \<and> map_of doc ''Resources'' = Some (JObj kvs)
          \<and> map_of doc' ''Resources'' = Some (JObj kvs')
          \<and> map fst kvs' = map fst kvs
          \<and> (\<forall>i < length kvs.
                (is_function (snd (kvs ! i)) = Inr False \<and> kvs' ! i = kvs ! i)
              \<or> (is_function (snd (kvs ! i)) = Inr True
                  \<and> (\<exists>entries entries' ps ps'.
                        snd (kvs ! i) = JObj entries
                      \<and> snd (kvs' ! i) = JObj entries'
                      \<and> same_except ''Properties'' entries entries'
                      \<and> map_of entries ''Properties'' = Some (JObj ps)
                      \<and> map_of entries' ''Properties'' = Some (JObj ps')
                      \<and> same_except ''CodeUri'' ps ps')))"
    by blast
qed

text \<open>The rewrite of the example manifest, computed.\<close>

lemma example_rewrite:
  "fst (update_sam_template example_host ''/out'' example_world) =
     Inr (JObj [(''Resources'',
        JObj [(''APIHandler'',
                 JObj [(''Type'', JStr ''AWS::Serverless::Function''),
                       (''Properties'', JObj [(''Runtime'', JStr ''python3.8''),
                                              (''CodeUri'', JObj [(''Bucket'', JStr ''bucket''),
                                                                  (''Key'', JStr ''key'')])])]),
              (''RestAPI'',
                 JObj [(''Type'', JStr ''AWS::Serverless::Api''),
                       (''Properties'', JObj [(''StageName'', JStr ''api'')])])])])"
proof -
  have z: "files example_world (path_join ''/out'' ''deployment.zip'') = Some ''PK''"
    by (simp add: example_world_def path_join_def)
  have s: "files example_world (path_join ''/out'' ''sam.json'') = Some ''SAM''"
    by (simp add: example_world_def path_join_def)
  have p: "json_loads example_host ''SAM'' = Some example_sam"
    by (simp add: example_host_def)
  have a: "asset_of example_host (path_join ''/out'' ''deployment.zip'') ''PK''
             = \<lparr>s3_bucket_name = ''bucket'', s3_object_key = ''key''\<rparr>"
    by (simp add: example_host_def)
  show ?thesis
    by (simp add: update_sam_template_result [OF z] s p a example_sam_def is_function_def
        patch_function_def code_uri_of_def)
qed

theorem update_sam_template_frame_witness:
  "files (snd (update_sam_template example_host ''/out'' example_world))
       (path_join ''/out'' ''sam.json'') = Some ''SAM''
   \<and> (\<exists>m'. fst (update_sam_template example_host ''/out'' example_world) = Inr m'
       \<and> (\<exists>t doc doc' kvs kvs'.
            files example_world (path_join ''/out'' ''sam.json'') = Some t
          \<and> json_loads example_host t = Some (JObj doc)
          \<and> m' = JObj doc'
          \<and> same_except ''Resources'' doc doc'
          \<and> map_of doc ''Resources'' = Some (JObj kvs)
          \<and> map_of doc' ''Resources'' = Some (JObj kvs')
          \<and> map fst kvs' = map fst kvs
          \<and> (\<forall>i < length kvs.
                (is_function (snd (kvs ! i)) = Inr False \<and> kvs' ! i = kvs ! i)
              \<or> (is_function (snd (kvs ! i)) = Inr True
                  \<and> (\<exists>entries entries' ps ps'.
                        snd (kvs ! i) = JObj entries
                      \<and> snd (kvs' ! i) = JObj entries'
                      \<and> same_except ''Properties'' entries entries'
                      \<and> map_of entries ''Properties'' = Some (JObj ps)
                      \<and> map_of entries' ''Properties'' = Some (JObj ps')
                      \<and> same_except ''CodeUri'' ps ps')))))"
proof -
  have s: "files example_world (path_join ''/out'' ''sam.json'') = Some ''SAM''"
    by (simp add: example_world_def path_join_def)
  show ?thesis
    using update_sam_template_frame [of example_host "''/out''" example_world] example_rewrite
    by (simp add: s)
qed

text \<open>
  C10. The asset of the archive is made before the manifest is opened. Where the
  archive is missing, the rewrite fails with the error of the asset, the manifest is not
  opened and no asset is added. Where the archive is there, the asset is added and stays
  added, also where the manifest is then missing (FileNotFoundError) or does not parse
  (JSONDecodeError).
\<close>

theorem update_sam_template_asset_first:
  "(files w (path_join dir ''deployment.zip'') = None \<longrightarrow>
       fst (update_sam_template h dir w) = Inl (AssetNotFound (path_join dir ''deployment.zip''))
     \<and> new_events w (snd (update_sam_template h dir w))
         = [NewAsset ''ChaliceAppCode'' (path_join dir ''deployment.zip'')]
     \<and> assets (snd (update_sam_template h dir w)) = assets w)
   \<and> (\<forall>blob. files w (path_join dir ''deployment.zip'') = Some blob \<longrightarrow>
       new_events w (snd (update_sam_template h dir w))
         = [NewAsset ''ChaliceAppCode'' (path_join dir ''deployment.zip''),
            Opened (path_join dir ''sam.json'')]
     \<and> assets (snd (update_sam_template h dir w))
         = assets w @ [asset_of h (path_join dir ''deployment.zip'') blob]
     \<and> (files w (path_join dir ''sam.json'') = None \<longrightarrow>
           fst (update_sam_template h dir w)
             = Inl (FileNotFoundError (path_join dir ''sam.json'')))
     \<and> (\<forall>t. files w (path_join dir ''sam.json'') = Some t \<and> json_loads h t = None \<longrightarrow>
           fst (update_sam_template h dir w) = Inl JSONDecodeError))"
proof (intro conjI allI impI)
  assume none: "files w (path_join dir ''deployment.zip'') = None"
  then show "fst (update_sam_template h dir w)
               = Inl (AssetNotFound (path_join dir ''deployment.zip''))"
    by (simp add: update_sam_template_def Asset_missing)
  from none show "new_events w (snd (update_sam_template h dir w))
         = [NewAsset ''ChaliceAppCode'' (path_join dir ''deployment.zip'')]"
    by (simp add: update_sam_template_world new_events_def emit_def)
  from none show "assets (snd (update_sam_template h dir w)) = assets w"
    by (simp add: update_sam_template_world emit_def)
next
  fix blob
  assume some: "files w (path_join dir ''deployment.zip'') = Some blob"
  then show "new_events w (snd (update_sam_template h dir w))
         = [NewAsset ''ChaliceAppCode'' (path_join dir ''deployment.zip''),
            Opened (path_join dir ''sam.json'')]"
    by (simp add: update_sam_template_world new_events_def emit_def)
  from some show "assets (snd (update_sam_template h dir w))
         = assets w @ [asset_of h (path_join dir ''deployment.zip'') blob]"
    by (simp add: update_sam_template_world emit_def)
  {
    assume "files w (path_join dir ''sam.json'') = None"
    then show "fst (update_sam_template h dir w)
             = Inl (FileNotFoundError (path_join dir ''sam.json''))"
      by (simp add: update_sam_template_result [OF some])
  }
  {
    fix t
    assume "files w (path_join dir ''sam.json'') = Some t \<and> json_loads h t = None"
    then show "fst (update_sam_template h dir w) = Inl JSONDecodeError"
      by (simp add: update_sam_template_result [OF some])
  }
qed

theorem update_sam_template_asset_first_witness:
  "fst (update_sam_template example_host ''/out''
          (example_world\<lparr>files := [''/out/sam.json'' \<mapsto> ''SAM'']\<rparr>))
     = Inl (AssetNotFound ''/out/deployment.zip'')
   \<and> events (snd (update_sam_template example_host ''/out''
          (example_world\<lparr>files := [''/out/sam.json'' \<mapsto> ''SAM'']\<rparr>)))
     = [NewAsset ''ChaliceAppCode'' ''/out/deployment.zip'']
   \<and> fst (update_sam_template example_host ''/out''
          (example_world\<lparr>files := [''/out/deployment.zip'' \<mapsto> ''PK'']\<rparr>))
     = Inl (FileNotFoundError ''/out/sam.json'')
   \<and> assets (snd (update_sam_template example_host ''/out''
          (example_world\<lparr>files := [''/out/deployment.zip'' \<mapsto> ''PK'']\<rparr>)))
     = [\<lparr>s3_bucket_name = ''bucket'', s3_object_key = ''key''\<rparr>]
   \<and> fst (update_sam_template example_host ''/out''
          (example_world\<lparr>files := [''/out/deployment.zip'' \<mapsto> ''PK'',
                                    ''/out/sam.json'' \<mapsto> ''{'']\<rparr>))
     = Inl JSONDecodeError
   \<and> events (snd (update_sam_template example_host ''/out''
          (example_world\<lparr>files := [''/out/deployment.zip'' \<mapsto> ''PK'',
                                    ''/out/sam.json'' \<mapsto> ''{'']\<rparr>)))
     = [NewAsset ''ChaliceAppCode'' ''/out/deployment.zip'', Opened ''/out/sam.json'']"
proof -
  let ?w1 = "example_world\<lparr>files := [''/out/sam.json'' \<mapsto> ''SAM'']\<rparr>"
  let ?w2 = "example_world\<lparr>files := [''/out/deployment.zip'' \<mapsto> ''PK'']\<rparr>"
  let ?w3 = "example_world\<lparr>files := [''/out/deployment.zip'' \<mapsto> ''PK'',
                                       ''/out/sam.json'' \<mapsto> ''{'']\<rparr>"
  have p: "path_join ''/out'' ''deployment.zip'' = ''/out/deployment.zip''"
          "path_join ''/out'' ''sam.json'' = ''/out/sam.json''"
    by (simp_all add: path_join_def)
  have e: "events example_world = []" "assets example_world = []"
    by (simp_all add: example_world_def)
  have h: "json_loads example_host ''{'' = None"
          "asset_of example_host ''/out/deployment.zip'' ''PK''
             = \<lparr>s3_bucket_name = ''bucket'', s3_object_key = ''key''\<rparr>"
    by (simp_all add: example_host_def)
  have a: "fst (update_sam_template example_host ''/out'' ?w1)
             = Inl (AssetNotFound ''/out/deployment.zip'')
           \<and> events (snd (update_sam_template example_host ''/out'' ?w1))
             = [NewAsset ''ChaliceAppCode'' ''/out/deployment.zip'']"
    using update_sam_template_asset_first [of ?w1 "''/out''" example_host]
    by (simp add: p e new_events_def)
  have b: "fst (update_sam_template example_host ''/out'' ?w2)
             = Inl (FileNotFoundError ''/out/sam.json'')
           \<and> assets (snd (update_sam_template example_host ''/out'' ?w2))
             = [\<lparr>s3_bucket_name = ''bucket'', s3_object_key = ''key''\<rparr>]"
    using update_sam_template_asset_first [of ?w2 "''/out''" example_host]
    by (simp add: p e h)
  have c: "fst (update_sam_template example_host ''/out'' ?w3) = Inl JSONDecodeError
           \<and> events (snd (update_sam_template example_host ''/out'' ?w3))
             = [NewAsset ''ChaliceAppCode'' ''/out/deployment.zip'', Opened ''/out/sam.json'']"
    using update_sam_template_asset_first [of ?w3 "''/out''" example_host]
    by (simp add: p e h new_events_def)
  show ?thesis using a b c by simp
qed

end
